theory Spec2Isabelle
  imports Main "HOL-Library.Word" "HOL-Library.Log_Nat"
begin

unbundle bit_operations_syntax

section \<open>JavaScript strings\<close>

text \<open>
  A JavaScript string is a sequence of 16-bit code units; \<open>charCodeAt\<close> reads one unit
  and \<open>length\<close> counts units. String literals of the sources are ASCII and are written
  with \<open>lit\<close>.
\<close>

type_synonym codeunit = "16 word"
type_synonym jsstr = "codeunit list"

definition lit :: "string \<Rightarrow> jsstr" where
  "lit s = map of_char s"

text \<open>
  \<open>String(n)\<close> of a non-negative whole number, as a template literal renders the
  attempt counter: plain decimal digits (the form JavaScript uses below \<open>10^21\<close>).
\<close>

function decDigits :: "nat \<Rightarrow> nat list" where
  "decDigits n = (if n < 10 then [n] else decDigits (n div 10) @ [n mod 10])"
  by pat_completeness auto
termination
  by (relation "measure id") auto

declare decDigits.simps [simp del]

definition numToString :: "nat \<Rightarrow> jsstr" where
  "numToString n = map (\<lambda>d. of_nat (48 + d)) (decDigits n)"

text \<open>\<open>seed32.toString(16)\<close>: lower-case hexadecimal without leading zeros.\<close>

function hexDigits :: "int \<Rightarrow> int list" where
  "hexDigits n = (if n < 16 then [n] else hexDigits (n div 16) @ [n mod 16])"
  by pat_completeness auto
termination
  by (relation "measure nat") auto

declare hexDigits.simps [simp del]

definition toString16 :: "32 word \<Rightarrow> jsstr" where
  "toString16 w =
     map (\<lambda>d. if d < 10 then of_int (48 + d) else of_int (87 + d)) (hexDigits (uint w))"

text \<open>
  The code units that \<open>String.prototype.trim\<close> strips and that \<open>\s\<close> matches in a
  regular expression: ECMAScript's WhiteSpace and LineTerminator.
\<close>

definition isWhiteSpace :: "codeunit \<Rightarrow> bool" where
  "isWhiteSpace c \<longleftrightarrow>
     c \<in> set [0x09, 0x0A, 0x0B, 0x0C, 0x0D, 0x20, 0xA0, 0x1680, 0x2028, 0x2029,
               0x202F, 0x205F, 0x3000, 0xFEFF]
     \<or> (0x2000 \<le> c \<and> c \<le> 0x200A)"

definition trim :: "jsstr \<Rightarrow> jsstr" where
  "trim s = rev (dropWhile isWhiteSpace (rev (dropWhile isWhiteSpace s)))"

text \<open>\<open>s.includes(w)\<close>: \<open>w\<close> occurs in \<open>s\<close> as a contiguous run.\<close>

fun startsWith :: "jsstr \<Rightarrow> jsstr \<Rightarrow> bool" where
  "startsWith s [] = True"
| "startsWith [] (c # w) = False"
| "startsWith (d # s) (c # w) = (d = c \<and> startsWith s w)"

fun includes_str :: "jsstr \<Rightarrow> jsstr \<Rightarrow> bool" where
  "includes_str [] w = (w = [])"
| "includes_str (c # s) w = (startsWith (c # s) w \<or> includes_str s w)"

text \<open>
  \<open>v || ""\<close> on a property that is a string or missing: a missing property
  (\<open>None\<close>) and the empty string both give the empty string. A value is truthy when it is
  a non-empty string.
\<close>

definition orEmpty :: "jsstr option \<Rightarrow> jsstr" where
  "orEmpty v = (case v of None \<Rightarrow> [] | Some s \<Rightarrow> s)"

definition truthy :: "jsstr option \<Rightarrow> bool" where
  "truthy v \<longleftrightarrow> orEmpty v \<noteq> []"

section \<open>Hash and generator\<close>

text \<open>
  \<open>hashStrToSeed\<close> and \<open>mulberry32\<close> stand with the same text in all three frontend
  files. \<open>Math.imul\<close>, \<open>^\<close>, \<open>|\<close> and \<open>>>>\<close> work on the operands modulo \<open>2^32\<close>, which
  is the arithmetic of \<open>32 word\<close>.
\<close>

definition hashStrToSeed :: "jsstr \<Rightarrow> 32 word" where
  "hashStrToSeed str = fold (\<lambda>c h. (h XOR ucast c) * 16777619) str 2166136261"

text \<open>
  The closure \<open>mulberry32(seed)\<close> owns one variable \<open>t\<close>; each call of the closure adds
  \<open>0x6D2B79F5\<close> to it as a JavaScript number, with no wrap-around (the sum stays a whole
  number below \<open>2^53\<close> for millions of calls, so it is exact), and the bit operations that
  follow read it modulo \<open>2^32\<close>. The state is passed explicitly: \<open>rng t\<close> is one call,
  giving the value in \<open>[0, 1)\<close> and the new state.
\<close>

type_synonym rngstate = int

definition mulberry32 :: "32 word \<Rightarrow> rngstate" where
  "mulberry32 seed = uint seed"

definition rng :: "rngstate \<Rightarrow> rat \<times> rngstate" where
  "rng t0 =
     (let t = t0 + 0x6D2B79F5;
          tw = (word_of_int t :: 32 word);
          x = (tw XOR drop_bit 15 tw) * (1 OR tw);
          x = x XOR (x + (x XOR drop_bit 7 x) * (61 OR x))
      in (of_int (uint (x XOR drop_bit 14 x)) / 4294967296, t))"

section \<open>Double-precision numbers\<close>

text \<open>
  A finite JavaScript number is the rational it denotes. Every arithmetic operation gives
  the exact result rounded to the nearest double, ties to even: \<open>fl\<close>. A double has 53
  significant bits and a binary exponent of at least \<open>-1022\<close> (below that the spacing
  stays \<open>2^-1074\<close>). Results of magnitude \<open>2^1024\<close> and more, where JavaScript gives
  \<open>Infinity\<close>, are outside this model; the sampler's numbers are bounded by a few hundred.
\<close>

definition rne :: "rat \<Rightarrow> int" where
  "rne x =
     (let f = \<lfloor>x\<rfloor>; r = x - of_int f
      in if r < 1 / 2 then f else if 1 / 2 < r then f + 1 else if even f then f else f + 1)"

text \<open>For \<open>x > 0\<close>: the \<open>e\<close> with \<open>2^e \<le> x < 2^(e+1)\<close>.\<close>

definition ilog2 :: "rat \<Rightarrow> int" where
  "ilog2 x =
     (let (p, q) = quotient_of x; e = bitlen p - bitlen q
      in if 2 powi e \<le> x then e else e - 1)"

definition bexp :: "rat \<Rightarrow> int" where
  "bexp x = max (ilog2 \<bar>x\<bar>) (- 1022)"

definition fl :: "rat \<Rightarrow> rat" where
  "fl x =
     (if x = 0 then 0
      else let q = 2 powi (bexp x - 52) in of_int (rne (x / q)) * q)"

text \<open>
  \<open>x.toFixed(d)\<close> writes the decimal with \<open>d\<close> fraction digits nearest to \<open>x\<close>, the
  larger magnitude on a tie (the sign is split off first); from \<open>10^21\<close> on it writes
  \<open>String(x)\<close>, which reads back as \<open>x\<close>. \<open>decimals d x\<close> is the number that string
  denotes, and \<open>Number(x.toFixed(d))\<close> is the double nearest to it.
\<close>

definition roundHalfAway :: "rat \<Rightarrow> int" where
  "roundHalfAway x = (if x < 0 then - \<lfloor>- x + 1 / 2\<rfloor> else \<lfloor>x + 1 / 2\<rfloor>)"

definition decimals :: "nat \<Rightarrow> rat \<Rightarrow> rat" where
  "decimals d x = of_int (roundHalfAway (x * 10 ^ d)) / 10 ^ d"

definition toFixed :: "nat \<Rightarrow> rat \<Rightarrow> rat" where
  "toFixed d x = (if 10 ^ 21 \<le> \<bar>x\<bar> then x else decimals d x)"

definition numberToFixed :: "nat \<Rightarrow> rat \<Rightarrow> rat" where
  "numberToFixed d x = fl (toFixed d x)"

text \<open>A JavaScript number that may be \<open>NaN\<close>.\<close>

datatype jsnum = Num rat | NaN

section \<open>Country bounds and the point generators\<close>

record countryBounds =
  name :: jsstr
  latMin :: rat
  latMax :: rat
  lonMin :: rat
  lonMax :: rat

text \<open>The number literals of the table denote the nearest doubles.\<close>

definition NZ :: countryBounds where
  "NZ = \<lparr>name = lit ''New Zealand'', latMin = - fl 47.5, latMax = - fl 34.0,
          lonMin = fl 166.0, lonMax = fl 179.8\<rparr>"

definition AU :: countryBounds where
  "AU = \<lparr>name = lit ''Australia'', latMin = - fl 43.8, latMax = - fl 10.0,
          lonMin = fl 112.0, lonMax = fl 154.0\<rparr>"

definition US :: countryBounds where
  "US = \<lparr>name = lit ''USA (lower 48)'', latMin = fl 24.5, latMax = fl 49.5,
          lonMin = - fl 125.0, lonMax = - fl 66.5\<rparr>"

definition GB :: countryBounds where
  "GB = \<lparr>name = lit ''United Kingdom'', latMin = fl 49.8, latMax = fl 59.0,
          lonMin = - fl 8.6, lonMax = fl 1.8\<rparr>"

definition JP :: countryBounds where
  "JP = \<lparr>name = lit ''Japan'', latMin = fl 30.0, latMax = fl 45.8,
          lonMin = fl 129.0, lonMax = fl 145.8\<rparr>"

text \<open>The own properties of the object \<open>COUNTRY_BOUNDS\<close>.\<close>

definition COUNTRY_BOUNDS :: "jsstr \<Rightarrow> countryBounds option" where
  "COUNTRY_BOUNDS k =
     (if k = lit ''NZ'' then Some NZ
      else if k = lit ''AU'' then Some AU
      else if k = lit ''US'' then Some US
      else if k = lit ''GB'' then Some GB
      else if k = lit ''JP'' then Some JP
      else None)"

text \<open>
  \<open>COUNTRY_BOUNDS\<close> is an object literal, so the property read
  \<open>COUNTRY_BOUNDS[countryCode]\<close> also finds what the object inherits from
  \<open>Object.prototype\<close>: its methods (functions, each with a \<open>name\<close>) and the accessor
  \<open>__proto__\<close>, which gives \<open>Object.prototype\<close> itself. All of them are truthy, none has
  a \<open>latMin\<close>, \<open>latMax\<close>, \<open>lonMin\<close> or \<open>lonMax\<close>, and \<open>Object.prototype\<close> has no
  \<open>name\<close>.
\<close>

datatype inherited = ProtoFunction jsstr | ProtoObject

definition objectPrototypeMethods :: "jsstr list" where
  "objectPrototypeMethods =
     map lit [''constructor'', ''hasOwnProperty'', ''isPrototypeOf'', ''propertyIsEnumerable'',
       ''toLocaleString'', ''toString'', ''valueOf'', ''__defineGetter__'',
       ''__defineSetter__'', ''__lookupGetter__'', ''__lookupSetter__'']"

definition getProperty :: "jsstr \<Rightarrow> (inherited + countryBounds) option" where
  "getProperty k =
     (case COUNTRY_BOUNDS k of
        Some b \<Rightarrow> Some (Inr b)
      | None \<Rightarrow>
          if k = lit ''__proto__'' then Some (Inl ProtoObject)
          else if k = lit ''constructor'' then Some (Inl (ProtoFunction (lit ''Object'')))
          else if k \<in> set objectPrototypeMethods then Some (Inl (ProtoFunction k))
          else None)"

text \<open>\<open>COUNTRY_BOUNDS[countryCode] || COUNTRY_BOUNDS.NZ\<close>\<close>

definition boundsFor :: "jsstr \<Rightarrow> inherited + countryBounds" where
  "boundsFor countryCode = (case getProperty countryCode of Some v \<Rightarrow> v | None \<Rightarrow> Inr NZ)"

text \<open>\<open>bounds.name\<close>; \<open>None\<close> is \<open>undefined\<close>.\<close>

definition nameOf :: "inherited + countryBounds \<Rightarrow> jsstr option" where
  "nameOf v =
     (case v of
        Inr b \<Rightarrow> Some (name b)
      | Inl (ProtoFunction n) \<Rightarrow> Some n
      | Inl ProtoObject \<Rightarrow> None)"

record spot =
  country :: "jsstr option"
  countryCode :: jsstr
  mode :: jsstr
  lat :: jsnum
  lon :: jsnum
  seed :: jsstr
  rerolls :: nat

text \<open>
  \<open>rollSpot\<close> of \<open>public/app.js\<close>. With bounds inherited from \<open>Object.prototype\<close> the
  four limits are \<open>undefined\<close>, the arithmetic gives \<open>NaN\<close>, \<open>NaN.toFixed(6)\<close> is
  \<open>"NaN"\<close> and \<open>Number("NaN")\<close> is \<open>NaN\<close>.
\<close>

definition rollSpot :: "jsstr \<Rightarrow> jsstr \<Rightarrow> jsstr \<Rightarrow> nat \<Rightarrow> spot" where
  "rollSpot code md userSeed n =
     (let bounds = boundsFor code;
          base = code @ lit ''|'' @ md @ lit ''|'' @ userSeed @ lit ''|''
                 @ numToString n;
          seed32 = hashStrToSeed base;
          t0 = mulberry32 seed32;
          (r1, t1) = rng t0;
          (r2, t2) = rng t1;
          (la, lo) =
            (case bounds of
               Inr b \<Rightarrow>
                 (Num (fl (latMin b + fl (r1 * fl (latMax b - latMin b)))),
                  Num (fl (lonMin b + fl (r2 * fl (lonMax b - lonMin b)))))
             | Inl _ \<Rightarrow> (NaN, NaN))
      in \<lparr>country = nameOf bounds,
          countryCode = code,
          mode = md,
          lat = (case la of Num x \<Rightarrow> Num (numberToFixed 6 x) | NaN \<Rightarrow> NaN),
          lon = (case lo of Num x \<Rightarrow> Num (numberToFixed 6 x) | NaN \<Rightarrow> NaN),
          seed = code @ lit ''-'' @ md @ lit ''-'' @ toString16 seed32,
          rerolls = n\<rparr>)"

text \<open>\<open>rollCenter\<close> of the third frontend file: the same derivation, with a brand.\<close>

definition BRAND :: jsstr where
  "BRAND = lit ''Random Spot Certificate''"

record center = spot +
  brand :: jsstr

definition rollCenter :: "jsstr \<Rightarrow> jsstr \<Rightarrow> jsstr \<Rightarrow> nat \<Rightarrow> center" where
  "rollCenter code md userSeed n =
     (let bounds = boundsFor code;
          base = code @ lit ''|'' @ md @ lit ''|'' @ userSeed @ lit ''|''
                 @ numToString n;
          seed32 = hashStrToSeed base;
          t0 = mulberry32 seed32;
          (r1, t1) = rng t0;
          (r2, t2) = rng t1;
          (la, lo) =
            (case bounds of
               Inr b \<Rightarrow>
                 (Num (fl (latMin b + fl (r1 * fl (latMax b - latMin b)))),
                  Num (fl (lonMin b + fl (r2 * fl (lonMax b - lonMin b)))))
             | Inl _ \<Rightarrow> (NaN, NaN))
      in \<lparr>country = nameOf bounds,
          countryCode = code,
          mode = md,
          lat = (case la of Num x \<Rightarrow> Num (numberToFixed 6 x) | NaN \<Rightarrow> NaN),
          lon = (case lo of Num x \<Rightarrow> Num (numberToFixed 6 x) | NaN \<Rightarrow> NaN),
          seed = code @ lit ''-'' @ md @ lit ''-'' @ toString16 seed32,
          rerolls = n,
          brand = BRAND\<rparr>)"

subsection \<open>The generator's variable in a store\<close>

text \<open>
  In the source the generator is a closure: \<open>mulberry32(seed32)\<close> allocates a variable
  \<open>t\<close> and returns a function, and every call of that function reads and overwrites
  \<open>t\<close>. To see what a call of \<open>rollSpot\<close> or \<open>rollCenter\<close> reads from and leaves in
  the program's memory, the variables of all generators ever made are kept in a store, a
  list of cells; the address of a variable is its index. \<open>mulberry32_st\<close> allocates a cell
  at the end of the store and returns its address, which stands for the closure;
  \<open>call_st a\<close> is one call \<open>rng()\<close> of the closure at address \<open>a\<close>: it updates the cell
  in place. A call through an address that is not in the store has no value (\<open>None\<close>).
  \<open>rollSpot_st\<close> and \<open>rollCenter_st\<close> are the two functions with the store passed
  through, returning the result object and the store they leave. Nothing else of the two
  functions touches memory: \<open>COUNTRY_BOUNDS\<close> is assigned once and never written, and the
  functions read no clock, no \<open>Math.random\<close> and no variable of the page.
\<close>

type_synonym store = "int list"

definition mulberry32_st :: "32 word \<Rightarrow> store \<Rightarrow> nat \<times> store" where
  "mulberry32_st s st = (length st, st @ [uint s])"

definition call_st :: "nat \<Rightarrow> store \<Rightarrow> rat option \<times> store" where
  "call_st a st =
     (if a < length st
      then (case rng (st ! a) of (r, t) \<Rightarrow> (Some r, st[a := t]))
      else (None, st))"

definition rollSpot_st ::
  "jsstr \<Rightarrow> jsstr \<Rightarrow> jsstr \<Rightarrow> nat \<Rightarrow> store \<Rightarrow> spot option \<times> store" where
  "rollSpot_st code md userSeed n st =
     (let bounds = boundsFor code;
          base = code @ lit ''|'' @ md @ lit ''|'' @ userSeed @ lit ''|''
                 @ numToString n;
          seed32 = hashStrToSeed base;
          (g, st0) = mulberry32_st seed32 st;
          (c1, st1) = call_st g st0;
          (c2, st2) = call_st g st1
      in (case (c1, c2) of
            (Some r1, Some r2) \<Rightarrow>
              (let (la, lo) =
                     (case bounds of
                        Inr b \<Rightarrow>
                          (Num (fl (latMin b + fl (r1 * fl (latMax b - latMin b)))),
                           Num (fl (lonMin b + fl (r2 * fl (lonMax b - lonMin b)))))
                      | Inl _ \<Rightarrow> (NaN, NaN))
               in Some \<lparr>country = nameOf bounds,
                        countryCode = code,
                        mode = md,
                        lat = (case la of Num x \<Rightarrow> Num (numberToFixed 6 x) | NaN \<Rightarrow> NaN),
                        lon = (case lo of Num x \<Rightarrow> Num (numberToFixed 6 x) | NaN \<Rightarrow> NaN),
                        seed = code @ lit ''-'' @ md @ lit ''-'' @ toString16 seed32,
                        rerolls = n\<rparr>)
          | _ \<Rightarrow> None,
          st2))"

definition rollCenter_st ::
  "jsstr \<Rightarrow> jsstr \<Rightarrow> jsstr \<Rightarrow> nat \<Rightarrow> store \<Rightarrow> center option \<times> store" where
  "rollCenter_st code md userSeed n st =
     (let bounds = boundsFor code;
          base = code @ lit ''|'' @ md @ lit ''|'' @ userSeed @ lit ''|''
                 @ numToString n;
          seed32 = hashStrToSeed base;
          (g, st0) = mulberry32_st seed32 st;
          (c1, st1) = call_st g st0;
          (c2, st2) = call_st g st1
      in (case (c1, c2) of
            (Some r1, Some r2) \<Rightarrow>
              (let (la, lo) =
                     (case bounds of
                        Inr b \<Rightarrow>
                          (Num (fl (latMin b + fl (r1 * fl (latMax b - latMin b)))),
                           Num (fl (lonMin b + fl (r2 * fl (lonMax b - lonMin b)))))
                      | Inl _ \<Rightarrow> (NaN, NaN))
               in Some \<lparr>country = nameOf bounds,
                        countryCode = code,
                        mode = md,
                        lat = (case la of Num x \<Rightarrow> Num (numberToFixed 6 x) | NaN \<Rightarrow> NaN),
                        lon = (case lo of Num x \<Rightarrow> Num (numberToFixed 6 x) | NaN \<Rightarrow> NaN),
                        seed = code @ lit ''-'' @ md @ lit ''-'' @ toString16 seed32,
                        rerolls = n,
                        brand = BRAND\<rparr>)
          | _ \<Rightarrow> None,
          st2))"

subsection \<open>The first frontend file: land bias inside the generator\<close>

definition clamp :: "rat \<Rightarrow> rat \<Rightarrow> rat \<Rightarrow> rat" where
  "clamp n a b = max a (min b n)"

text \<open>\<open>x % y\<close> on numbers takes the sign of \<open>x\<close> and is exact.\<close>

definition jsRem :: "rat \<Rightarrow> rat \<Rightarrow> rat" where
  "jsRem x y = x - y * of_int (if 0 \<le> x / y then \<lfloor>x / y\<rfloor> else \<lceil>x / y\<rceil>)"

definition oceanishHeuristic :: "rat \<Rightarrow> rat \<Rightarrow> rat" where
  "oceanishHeuristic la lo =
     (let latScore = fl (1 - fl (\<bar>la\<bar> / 90));
          lonScore = fl (1 - fl (fl (\<bar>jsRem lo 180\<bar> / 180) * fl 0.2))
      in clamp (fl (latScore * lonScore)) 0 1)"

definition landBiasAccept :: "rat \<Rightarrow> rat \<Rightarrow> rngstate \<Rightarrow> bool \<times> rngstate" where
  "landBiasAccept la lo t =
     (let p = oceanishHeuristic la lo;
          (r, t') = rng t
      in (r < clamp (fl (p * fl 1.15)) (fl 0.05) (fl 0.95), t'))"

text \<open>
  The loop \<open>for (let i=0;i<maxTries;i++)\<close> of the first file's \<open>rollSpot\<close>, by the number
  of iterations left; \<open>lat\<close> and \<open>lon\<close> start at 0 and hold the last candidate drawn.
\<close>

fun rollTries :: "countryBounds \<Rightarrow> jsstr \<Rightarrow> nat \<Rightarrow> rngstate \<Rightarrow> rat \<times> rat \<Rightarrow> rat \<times> rat" where
  "rollTries b md 0 t latlon = latlon"
| "rollTries b md (Suc k) t latlon =
     (let (r1, t1) = rng t;
          la = fl (latMin b + fl (r1 * fl (latMax b - latMin b)));
          (r2, t2) = rng t1;
          lo = fl (lonMin b + fl (r2 * fl (lonMax b - lonMin b)))
      in if md \<noteq> lit ''publicish'' then (la, lo)
         else let (accept, t3) = landBiasAccept la lo t2
              in if accept then (la, lo) else rollTries b md k t3 (la, lo))"

text \<open>
  With inherited bounds every candidate is \<open>NaN\<close>, \<open>landBiasAccept\<close> compares with
  \<open>NaN\<close> and never accepts, and the result is \<open>NaN\<close> after the last try.
\<close>

definition rollSpot_v1 :: "jsstr \<Rightarrow> jsstr \<Rightarrow> jsstr \<Rightarrow> nat \<Rightarrow> spot" where
  "rollSpot_v1 code md userSeed n =
     (let bounds = boundsFor code;
          base = code @ lit ''|'' @ md @ lit ''|'' @ userSeed @ lit ''|''
                 @ numToString n;
          seed32 = hashStrToSeed base;
          t0 = mulberry32 seed32;
          maxTries = (if md = lit ''publicish'' then 120 else 40);
          (la, lo) =
            (case bounds of
               Inr b \<Rightarrow> (case rollTries b md maxTries t0 (0, 0) of (x, y) \<Rightarrow> (Num x, Num y))
             | Inl _ \<Rightarrow> (NaN, NaN))
      in \<lparr>country = nameOf bounds,
          countryCode = code,
          mode = md,
          lat = (case la of Num x \<Rightarrow> Num (numberToFixed 6 x) | NaN \<Rightarrow> NaN),
          lon = (case lo of Num x \<Rightarrow> Num (numberToFixed 6 x) | NaN \<Rightarrow> NaN),
          seed = code @ lit ''-'' @ md @ lit ''-'' @ toString16 seed32,
          rerolls = n\<rparr>)"

section \<open>Tiles\<close>

text \<open>
  \<open>Math.cos\<close> is implementation-approximated, so the tile functions take the cosine as a
  parameter \<open>mcos\<close>; \<open>Math.PI\<close> is the double nearest to \<open>\<pi>\<close>.
\<close>

definition Math_PI :: rat where
  "Math_PI = 884279719003555 / 281474976710656"

definition metersToLatDeg :: "rat \<Rightarrow> rat" where
  "metersToLatDeg m = fl (m / 111320)"

definition metersToLonDeg :: "(rat \<Rightarrow> rat) \<Rightarrow> rat \<Rightarrow> rat \<Rightarrow> rat" where
  "metersToLonDeg mcos m latDeg =
     (let c = mcos (fl (fl (latDeg * Math_PI) / 180))
      in fl (m / fl (111320 * max c (fl 0.12))))"

text \<open>
  The object \<open>makeTileFromCenter\<close> returns; \<open>north\<close> to \<open>west\<close> are its \<open>bounds\<close>,
  \<open>NW\<close> to \<open>SE\<close> its \<open>corners\<close>, each a pair of latitude and longitude.
\<close>

record tile =
  sizeMeters :: rat
  areaM2 :: rat
  tileCenter :: "rat \<times> rat"
  north :: rat
  south :: rat
  east :: rat
  west :: rat
  NW :: "rat \<times> rat"
  NE :: "rat \<times> rat"
  SW :: "rat \<times> rat"
  SE :: "rat \<times> rat"

definition makeTileFromCenter :: "(rat \<Rightarrow> rat) \<Rightarrow> rat \<Rightarrow> rat \<Rightarrow> rat \<Rightarrow> tile" where
  "makeTileFromCenter mcos la lo sz =
     (let half = fl (sz / 2);
          dLat = metersToLatDeg half;
          dLon = metersToLonDeg mcos half la;
          n = fl (la + dLat);
          s = fl (la - dLat);
          e = fl (lo + dLon);
          w = fl (lo - dLon)
      in \<lparr>sizeMeters = sz,
          areaM2 = numberToFixed 2 (fl (sz * sz)),
          tileCenter = (la, lo),
          north = n, south = s, east = e, west = w,
          NW = (n, w), NE = (n, e), SW = (s, w), SE = (s, e)\<rparr>)"

section \<open>Land checks\<close>

text \<open>
  What the network gives for one request: \<open>fetch\<close> rejects, or the status is not ok, or
  the body is not JSON, or the body parses to data. A call either throws (with the error's
  message) or returns.
\<close>

datatype 'a fetched = FetchFailed jsstr | HttpNotOk | JsonFailed jsstr | Body 'a

datatype 'a outcome = Throws jsstr | Returns 'a

text \<open>
  A value of the parsed answer, as far as the checks can tell values apart: they convert
  type, category and display name with \<open>String(v || "")\<close> and test the entries of the
  address for truthiness. \<open>Falsy\<close> is a property that is missing or holds \<open>null\<close>,
  \<open>false\<close>, \<open>0\<close> or the empty string; \<open>Str s\<close> is the string \<open>s\<close>; \<open>Printable s\<close> is
  any other value (\<open>true\<close>, a number other than 0, an array, an object) that \<open>String\<close>
  converts to \<open>s\<close>; \<open>Unprintable msg\<close> is a value on which \<open>String\<close> throws a
  \<open>TypeError\<close> with message \<open>msg\<close> (an object with a property \<open>toString\<close>, which after
  \<open>JSON.parse\<close> is never a function, or an array that holds one).
\<close>

datatype jsonval = Falsy | Str jsstr | Printable jsstr | Unprintable jsstr

text \<open>\<open>String(v || "")\<close> and the truthiness of \<open>v\<close>.\<close>

definition stringOrEmpty :: "jsonval \<Rightarrow> jsstr outcome" where
  "stringOrEmpty v =
     (case v of
        Falsy \<Rightarrow> Returns []
      | Str s \<Rightarrow> Returns s
      | Printable s \<Rightarrow> Returns s
      | Unprintable msg \<Rightarrow> Throws msg)"

definition truthyValue :: "jsonval \<Rightarrow> bool" where
  "truthyValue v =
     (case v of
        Falsy \<Rightarrow> False
      | Str s \<Rightarrow> s \<noteq> []
      | Printable s \<Rightarrow> True
      | Unprintable msg \<Rightarrow> True)"

text \<open>
  The fields of a reverse-geocoding answer that the checks read: \<open>data?.type\<close>,
  \<open>data?.category\<close>, \<open>data?.display_name\<close>, and the entries of
  \<open>data?.address || {}\<close> by their keys. An answer that is \<open>null\<close> or not an object has
  all of them \<open>Falsy\<close>, and so has the address when it is missing or not an object.
\<close>

record reverseData =
  rtype :: jsonval
  rcategory :: jsonval
  display_name :: jsonval
  address :: "jsstr \<Rightarrow> jsonval"

text \<open>
  What the frontend takes from its surroundings: \<open>crypto.randomUUID()\<close>, which returns
  a string or throws (the method exists in secure contexts only),
  \<open>String.prototype.toLowerCase\<close> (the Unicode case tables are not part of the
  repository), \<open>Math.cos\<close>, and the answers of the two services to the request of the
  \<open>i\<close>-th attempt.
\<close>

record services =
  randomUUID :: "jsstr outcome"
  toLowerCase :: "jsstr \<Rightarrow> jsstr"
  cosine :: "rat \<Rightarrow> rat"
  nominatim :: "nat \<Rightarrow> reverseData fetched"
  overpass :: "nat \<Rightarrow> nat option fetched"

subsection \<open>\<open>reverseCheck\<close> of \<open>public/app.js\<close>\<close>

text \<open>
  The conversions run in the order of the source (type, category, then the display name
  after \<open>looksWater\<close>); one that throws ends the call with its error.
\<close>

record landCheck =
  ok :: bool
  looksWater :: bool
  place :: jsstr
  rawType :: jsstr
  rawCategory :: jsstr

definition waterTypes :: "jsstr list" where
  "waterTypes = map lit [''ocean'', ''sea'', ''bay'', ''strait'', ''channel'', ''water'',
     ''river'', ''lake'', ''reservoir'', ''reef'']"

definition reverseCheck :: "(jsstr \<Rightarrow> jsstr) \<Rightarrow> reverseData fetched \<Rightarrow> landCheck outcome" where
  "reverseCheck lower r =
     (case r of
        FetchFailed msg \<Rightarrow> Throws msg
      | HttpNotOk \<Rightarrow> Throws (lit ''Reverse lookup failed'')
      | JsonFailed msg \<Rightarrow> Throws msg
      | Body d \<Rightarrow>
          (case stringOrEmpty (rtype d) of
             Throws msg \<Rightarrow> Throws msg
           | Returns ty \<Rightarrow>
               (case stringOrEmpty (rcategory d) of
                  Throws msg \<Rightarrow> Throws msg
                | Returns ca \<Rightarrow>
                    (let t = lower ty;
                         c = lower ca;
                         water = (t \<in> set waterTypes \<or> includes_str c (lit ''water'')
                                  \<or> includes_str c (lit ''sea'') \<or> includes_str t (lit ''ocean'')
                                  \<or> includes_str t (lit ''sea''))
                     in case stringOrEmpty (display_name d) of
                          Throws msg \<Rightarrow> Throws msg
                        | Returns di \<Rightarrow>
                            (let display = trim di
                             in Returns \<lparr>ok = (\<not> water \<and> 6 \<le> length display),
                                  looksWater = water,
                                  place = (if display = [] then lit ''Unknown'' else display),
                                  rawType = (if t = [] then lit ''unknown'' else t),
                                  rawCategory = (if c = [] then lit ''unknown'' else c)\<rparr>)))))"

subsection \<open>\<open>reverseCheckNominatim\<close>, \<open>overpassHasHighwayNearby\<close>, \<open>strongLandCheck\<close>\<close>

record nomCheck =
  nom_ok :: bool
  nom_looksWater :: bool
  nom_place :: jsstr
  nom_type :: jsstr
  nom_category :: jsstr
  hasRoadish :: bool
  hasPlaceish :: bool
  hasCountry :: bool

definition waterWords :: "jsstr list" where
  "waterWords = map lit [''ocean'', ''sea'', ''bay'', ''strait'', ''channel'', ''water'',
     ''river'', ''lake'', ''reservoir'', ''reef'', ''coastline'', ''beach'']"

definition reverseCheckNominatim ::
  "(jsstr \<Rightarrow> jsstr) \<Rightarrow> reverseData fetched \<Rightarrow> nomCheck outcome" where
  "reverseCheckNominatim lower r =
     (case r of
        FetchFailed msg \<Rightarrow> Throws msg
      | HttpNotOk \<Rightarrow> Throws (lit ''Nominatim reverse failed'')
      | JsonFailed msg \<Rightarrow> Throws msg
      | Body d \<Rightarrow>
          (case stringOrEmpty (rtype d) of
             Throws msg \<Rightarrow> Throws msg
           | Returns ty \<Rightarrow>
               (case stringOrEmpty (rcategory d) of
                  Throws msg \<Rightarrow> Throws msg
                | Returns ca \<Rightarrow>
                    (case stringOrEmpty (display_name d) of
                       Throws msg \<Rightarrow> Throws msg
                     | Returns di \<Rightarrow>
                         (let t = lower ty;
                              c = lower ca;
                              display = trim di;
                              addr = address d;
                              water = (list_ex (\<lambda>w. includes_str t w) waterWords
                                       \<or> list_ex (\<lambda>w. includes_str c w) waterWords
                                       \<or> (c = lit ''natural''
                                           \<and> (t = lit ''water'' \<or> t = lit ''coastline'')));
                              roadish = (truthyValue (addr (lit ''road''))
                                         \<or> truthyValue (addr (lit ''pedestrian''))
                                         \<or> truthyValue (addr (lit ''footway''))
                                         \<or> truthyValue (addr (lit ''cycleway'')));
                              placeish = (truthyValue (addr (lit ''city''))
                                          \<or> truthyValue (addr (lit ''town''))
                                          \<or> truthyValue (addr (lit ''village''))
                                          \<or> truthyValue (addr (lit ''hamlet''))
                                          \<or> truthyValue (addr (lit ''suburb''))
                                          \<or> truthyValue (addr (lit ''neighbourhood'')));
                              cntry = truthyValue (addr (lit ''country''))
                          in Returns \<lparr>nom_ok = (\<not> water \<and> cntry
                                                \<and> (roadish \<or> placeish \<or> 12 < length display)),
                               nom_looksWater = water,
                               nom_place = (if display = [] then lit ''Unknown'' else display),
                               nom_type = t,
                               nom_category = c,
                               hasRoadish = roadish, hasPlaceish = placeish,
                               hasCountry = cntry\<rparr>)))))"

text \<open>
  The Overpass answer is read only for the length of its \<open>elements\<close> array; \<open>None\<close>
  is an answer whose \<open>elements\<close> is not an array.
\<close>

record roadsCheck =
  roads_ok :: bool
  count :: nat
  radiusMeters :: nat

definition overpassHasHighwayNearby :: "nat option fetched \<Rightarrow> nat \<Rightarrow> roadsCheck outcome" where
  "overpassHasHighwayNearby r radius =
     (case r of
        FetchFailed msg \<Rightarrow> Throws msg
      | HttpNotOk \<Rightarrow> Throws (lit ''Overpass failed'')
      | JsonFailed msg \<Rightarrow> Throws msg
      | Body elements \<Rightarrow>
          (let cnt = (case elements of Some k \<Rightarrow> k | None \<Rightarrow> 0)
           in Returns \<lparr>roads_ok = (0 < cnt), count = cnt, radiusMeters = radius\<rparr>))"

text \<open>
  The \<open>roads\<close> of a check: the Overpass result, or \<open>{ok: null, error}\<close> when the
  Overpass call threw.
\<close>

datatype roadsInfo = Roads roadsCheck | RoadsError jsstr

record strongCheck =
  sc_ok :: bool
  level :: jsstr
  sc_place :: jsstr
  nom :: "nomCheck option"
  roads :: "roadsInfo option"
  sc_error :: "jsstr option"
  sc_note :: "jsstr option"

text \<open>The requests a run sends and the points it derives, in program order.\<close>

datatype event = Derive nat | CallNominatim | CallOverpass

definition strongLandCheck ::
  "(jsstr \<Rightarrow> jsstr) \<Rightarrow> reverseData fetched \<Rightarrow> nat option fetched \<Rightarrow> jsstr
     \<Rightarrow> event list \<times> strongCheck outcome" where
  "strongLandCheck lower nomAnswer roadsAnswer md =
     (case reverseCheckNominatim lower nomAnswer of
        Throws msg \<Rightarrow> ([CallNominatim], Throws msg)
      | Returns n \<Rightarrow>
          if md \<noteq> lit ''publicish'' then
            ([CallNominatim],
             Returns \<lparr>sc_ok = True, level = lit ''lite'', sc_place = nom_place n, nom = Some n,
               roads = None, sc_error = None, sc_note = None\<rparr>)
          else if \<not> nom_ok n then
            ([CallNominatim],
             Returns \<lparr>sc_ok = False, level = lit ''nominatim'', sc_place = nom_place n,
               nom = Some n, roads = None, sc_error = None, sc_note = None\<rparr>)
          else
            (case overpassHasHighwayNearby roadsAnswer 3000 of
               Returns rd \<Rightarrow>
                 if \<not> roads_ok rd then
                   ([CallNominatim, CallOverpass],
                    Returns \<lparr>sc_ok = False, level = lit ''overpass'', sc_place = nom_place n,
                      nom = Some n, roads = Some (Roads rd), sc_error = None, sc_note = None\<rparr>)
                 else
                   ([CallNominatim, CallOverpass],
                    Returns \<lparr>sc_ok = True, level = lit ''strong'', sc_place = nom_place n,
                      nom = Some n, roads = Some (Roads rd), sc_error = None, sc_note = None\<rparr>)
             | Throws msg \<Rightarrow>
                 ([CallNominatim, CallOverpass],
                  Returns \<lparr>sc_ok = nom_ok n, level = lit ''fallback'', sc_place = nom_place n,
                    nom = Some n, roads = Some (RoadsError msg), sc_error = None, sc_note = None\<rparr>)))"

section \<open>Orchestrators\<close>

subsection \<open>\<open>rollUntilLikelyLand\<close> of \<open>public/app.js\<close>\<close>

text \<open>
  The loop \<open>for (let i = 1; i <= maxAttempts; i++)\<close> with the variables \<open>spot\<close> and
  \<open>check\<close> (\<open>None\<close> is \<open>null\<close>) and the events so far. The function first calls
  \<open>crypto.randomUUID()\<close>, outside any \<open>try\<close>: when that throws, the function throws
  before it derives anything. \<open>maxAttempts\<close> is a whole number.
\<close>

definition lookupUnavailable :: landCheck where
  "lookupUnavailable = \<lparr>ok = False, looksWater = False, place = lit ''Lookup unavailable'',
     rawType = [], rawCategory = []\<rparr>"

function likelyLandLoop ::
  "services \<Rightarrow> jsstr \<Rightarrow> jsstr \<Rightarrow> jsstr \<Rightarrow> nat \<Rightarrow> nat \<Rightarrow> spot option \<Rightarrow> landCheck option
     \<Rightarrow> event list \<Rightarrow> (spot option \<times> landCheck option) \<times> event list" where
  "likelyLandLoop env code md userSeed maxAttempts i sp chk evs =
     (if i \<le> maxAttempts then
        (let s = rollSpot code md userSeed i;
             evs' = evs @ [Derive i, CallNominatim]
         in case reverseCheck (toLowerCase env) (nominatim env i) of
              Returns c \<Rightarrow>
                if md \<noteq> lit ''publicish'' then ((Some s, Some c), evs')
                else if ok c then ((Some s, Some c), evs')
                else likelyLandLoop env code md userSeed maxAttempts (i + 1) (Some s) (Some c) evs'
            | Throws msg \<Rightarrow>
                if 3 \<le> i then ((Some s, Some lookupUnavailable), evs')
                else likelyLandLoop env code md userSeed maxAttempts (i + 1) (Some s) chk evs')
      else ((sp, chk), evs))"
  by pat_completeness auto
termination
  by (relation "measure (\<lambda>(env, code, md, userSeed, maxAttempts, i, sp, chk, evs). maxAttempts + 1 - i)")
    auto

declare likelyLandLoop.simps [simp del]

definition rollUntilLikelyLand ::
  "services \<Rightarrow> jsstr \<Rightarrow> jsstr \<Rightarrow> nat
     \<Rightarrow> (spot option \<times> landCheck option) outcome \<times> event list" where
  "rollUntilLikelyLand env code md maxAttempts =
     (case randomUUID env of
        Throws msg \<Rightarrow> (Throws msg, [])
      | Returns userSeed \<Rightarrow>
          (case likelyLandLoop env code md userSeed maxAttempts 1 None None [] of
             (r, evs) \<Rightarrow> (Returns r, evs)))"

subsection \<open>\<open>rollUntilGood\<close> of the third frontend file\<close>

text \<open>
  The spot \<open>{ ...center, tile, check }\<close>. A center inherited from \<open>Object.prototype\<close> has
  \<open>NaN\<close> coordinates and its tile has \<open>NaN\<close> corners: \<open>picked_tile\<close> is \<open>None\<close> then.
\<close>

record picked =
  picked_center :: center
  picked_tile :: "tile option"
  picked_check :: strongCheck

definition exhausted :: "picked \<Rightarrow> picked" where
  "exhausted best =
     best\<lparr>picked_check := (picked_check best)\<lparr>sc_ok := False, level := lit ''exhausted'',
       sc_note := Some (lit ''Could not confidently avoid water/remote picks.'')\<rparr>\<rparr>"

function goodLoop ::
  "services \<Rightarrow> jsstr \<Rightarrow> jsstr \<Rightarrow> rat \<Rightarrow> jsstr \<Rightarrow> nat \<Rightarrow> nat \<Rightarrow> picked option \<Rightarrow> event list
     \<Rightarrow> picked option \<times> event list" where
  "goodLoop env code md tileMeters userSeed maxAttempts i best evs =
     (if i \<le> maxAttempts then
        (let c = rollCenter code md userSeed i;
             t = (case (lat c, lon c) of
                    (Num la, Num lo) \<Rightarrow> Some (makeTileFromCenter (cosine env) la lo tileMeters)
                  | _ \<Rightarrow> None);
             (calls, r) = strongLandCheck (toLowerCase env) (nominatim env i) (overpass env i) md;
             chk = (case r of
                      Returns k \<Rightarrow> k
                    | Throws msg \<Rightarrow>
                        \<lparr>sc_ok = (md \<noteq> lit ''publicish''), level = lit ''error'',
                         sc_place = lit ''Lookup unavailable'', nom = None, roads = None,
                         sc_error = Some msg, sc_note = None\<rparr>);
             sp = \<lparr>picked_center = c, picked_tile = t, picked_check = chk\<rparr>;
             evs' = evs @ [Derive i] @ calls
         in if md \<noteq> lit ''publicish'' then (Some sp, evs')
            else if sc_ok chk then (Some sp, evs')
            else goodLoop env code md tileMeters userSeed maxAttempts (i + 1) (Some sp) evs')
      else (map_option exhausted best, evs))"
  by pat_completeness auto
termination
  by (relation "measure (\<lambda>(env, code, md, tileMeters, userSeed, maxAttempts, i, best, evs).
        maxAttempts + 1 - i)") auto

declare goodLoop.simps [simp del]

definition rollUntilGood ::
  "services \<Rightarrow> jsstr \<Rightarrow> jsstr \<Rightarrow> rat \<Rightarrow> nat \<Rightarrow> picked option outcome \<times> event list" where
  "rollUntilGood env code md tileMeters maxAttempts =
     (case randomUUID env of
        Throws msg \<Rightarrow> (Throws msg, [])
      | Returns userSeed \<Rightarrow>
          (case goodLoop env code md tileMeters userSeed maxAttempts 1 None [] of
             (r, evs) \<Rightarrow> (Returns r, evs)))"

section \<open>The \<open>deliver\<close> action of \<open>netlify/functions/stripe.js\<close>\<close>

definition asStr :: "jsstr option \<Rightarrow> nat \<Rightarrow> jsstr" where
  "asStr v mx = (case v of None \<Rightarrow> [] | Some s \<Rightarrow> take mx (trim s))"

text \<open>
  \<open>/^[^\s@]+@[^\s@]+\.[^\s@]+$/\<close>: no white space, exactly one \<open>@\<close> with something
  before it, and after it a dot that is neither the first nor the last code unit.
\<close>

definition looksLikeEmail :: "jsstr \<Rightarrow> bool" where
  "looksLikeEmail s =
     (let isAt = (\<lambda>c. c = of_char (CHR ''@''));
          plain = (\<lambda>c. \<not> isWhiteSpace c \<and> \<not> isAt c);
          local_part = takeWhile (\<lambda>c. \<not> isAt c) s;
          rest = dropWhile (\<lambda>c. \<not> isAt c) s
      in local_part \<noteq> [] \<and> list_all plain local_part \<and> rest \<noteq> []
         \<and> list_all plain (tl rest)
         \<and> of_char (CHR ''.'') \<in> set (butlast (tl (tl rest))))"

text \<open>
  The Stripe objects the action reads. \<open>payment_intent\<close> of a retrieved session is
  \<open>null\<close>, an id string, or (expanded) an object with an id; the metadata of a payment
  intent lives in Stripe under the intent's id.
\<close>

datatype intentRef = IntentNull | IntentId jsstr | IntentObject jsstr

record session =
  payment_status :: jsstr
  metadata :: "jsstr \<Rightarrow> jsstr option"
  payment_intent :: intentRef

text \<open>
  A message handed to the mail transport (the attachment and the HTML body are left out).
\<close>

record email =
  mail_from :: jsstr
  mail_to :: jsstr
  subject :: jsstr

text \<open>
  The world outside the function: Stripe's sessions and payment-intent metadata, and the
  messages the mail transport has accepted.
\<close>

record world =
  sessions :: "jsstr \<Rightarrow> session option"
  intents :: "jsstr \<Rightarrow> (jsstr \<Rightarrow> jsstr option)"
  outbox :: "email list"

text \<open>Which of the awaited calls of one invocation reject.\<close>

record faults =
  retrieveFails :: bool
  pdfFails :: bool
  sendFails :: bool
  updateFails :: bool

record config =
  STRIPE_SECRET_KEY :: "jsstr option"
  GMAIL_USER :: "jsstr option"
  GMAIL_APP_PASSWORD :: "jsstr option"

text \<open>
  The parsed request body: \<open>JSON.parse\<close> throws, or gives \<open>null\<close>, or gives a value
  whose \<open>action\<close> and \<open>session_id\<close> are read (\<open>None\<close>: missing or not a string).
\<close>

datatype parsedBody = InvalidJson | JsonNull | JsonValue "jsstr option" "jsstr option"

record httpEvent =
  httpMethod :: jsstr
  q_action :: "jsstr option"
  q_session_id :: "jsstr option"
  posted :: parsedBody

text \<open>
  The response \<open>json(statusCode, data)\<close>, by the fields of \<open>data\<close>; the \<open>detail\<close> of
  a \<open>Server error\<close> answer (the message of the error caught) is left out.
\<close>

record response =
  statusCode :: nat
  r_ok :: "bool option"
  r_delivered :: "bool option"
  r_to :: "jsstr option"
  r_message :: "jsstr option"
  r_error :: "jsstr option"

definition reply :: "nat \<Rightarrow> bool \<Rightarrow> bool \<Rightarrow> jsstr option \<Rightarrow> jsstr option \<Rightarrow> response" where
  "reply code okv deliveredv tov msg =
     \<lparr>statusCode = code, r_ok = Some okv, r_delivered = Some deliveredv, r_to = tov,
      r_message = msg, r_error = None\<rparr>"

definition failure :: "nat \<Rightarrow> jsstr \<Rightarrow> response" where
  "failure code msg =
     \<lparr>statusCode = code, r_ok = None, r_delivered = None, r_to = None, r_message = None,
      r_error = Some msg\<rparr>"

text \<open>\<open>a || b\<close> on optional strings.\<close>

definition orElse :: "jsstr option \<Rightarrow> jsstr option \<Rightarrow> jsstr option" where
  "orElse a b = (if truthy a then a else b)"

text \<open>
  The block \<open>if (action === "deliver") { ... }\<close> inside the handler's \<open>try\<close>; every
  rejected \<open>await\<close> and every throw ends in the \<open>catch\<close>, which answers 500
  \<open>Server error\<close>. \<open>now\<close> is \<open>new Date().toISOString()\<close>.
\<close>

definition deliver ::
  "(jsstr \<Rightarrow> jsstr) \<Rightarrow> config \<Rightarrow> faults \<Rightarrow> jsstr \<Rightarrow> httpEvent \<Rightarrow> world \<Rightarrow> response \<times> world" where
  "deliver lower cfg flt now ev w =
     (case (if truthy (q_session_id ev) then Some (q_session_id ev)
            else (case posted ev of
                    JsonValue a sid \<Rightarrow> Some sid
                  | _ \<Rightarrow> None)) of
        None \<Rightarrow> (failure 500 (lit ''Server error''), w)
      | Some raw \<Rightarrow>
          (let session_id = asStr raw 200 in
           if session_id = [] \<or> \<not> startsWith session_id (lit ''cs_'')
           then (failure 400 (lit ''Missing/invalid session_id''), w)
           else if retrieveFails flt then (failure 500 (lit ''Server error''), w)
           else
             (case sessions w session_id of
                None \<Rightarrow> (failure 500 (lit ''Server error''), w)
              | Some sess \<Rightarrow>
                  if payment_status sess \<noteq> lit ''paid''
                  then (reply 200 False False None (Some (lit ''Payment not confirmed.'')), w)
                  else
                    (let meta = metadata sess;
                         consentYes = (lower (orEmpty (meta (lit ''email_consent''))) = lit ''yes'');
                         to = asStr (Some (orEmpty (meta (lit ''email'')))) 120
                     in if \<not> consentYes
                        then (reply 200 True False None
                                (Some (lit ''Email delivery not opted in.'')), w)
                        else if to = [] \<or> \<not> looksLikeEmail to
                        then (reply 200 False False None
                                (Some (lit ''Missing/invalid email in metadata.'')), w)
                        else
                          (case payment_intent sess of
                             IntentObject pid \<Rightarrow>
                               if pid = []
                               then (reply 500 False False None
                                       (Some (lit ''Missing payment_intent.'')), w)
                               else
                                 (let piMeta = intents w pid in
                                  if lower (orEmpty (piMeta (lit ''certificate_emailed''))) = lit ''yes''
                                  then (reply 200 True True (Some to)
                                          (Some (lit ''Already emailed (idempotent).'')), w)
                                  else if pdfFails flt
                                  then (failure 500 (lit ''Server error''), w)
                                  else if \<not> truthy (GMAIL_USER cfg) \<or> \<not> truthy (GMAIL_APP_PASSWORD cfg)
                                  then (failure 500 (lit ''Server error''), w)
                                  else if sendFails flt
                                  then (failure 500 (lit ''Server error''), w)
                                  else
                                    (let sent = w\<lparr>outbox := outbox w @
                                           [\<lparr>mail_from = lit ''Random Spot Certificate <''
                                                @ orEmpty (GMAIL_USER cfg) @ lit ''>'',
                                             mail_to = to,
                                             subject = lit ''Your Random Spot Certificate (PDF)''\<rparr>]\<rparr>
                                     in if updateFails flt
                                        then (failure 500 (lit ''Server error''), sent)
                                        else
                                          (reply 200 True True (Some to) None,
                                           sent\<lparr>intents := (intents sent)(pid :=
                                             (piMeta(lit ''certificate_emailed'' \<mapsto> lit ''yes'',
                                                lit ''certificate_emailed_at'' \<mapsto> now,
                                                lit ''certificate_email_to'' \<mapsto> to)))\<rparr>)))
                           | _ \<Rightarrow>
                               (reply 500 False False None
                                  (Some (lit ''Missing payment_intent.'')), w))))))"

text \<open>
  The handler around it: the \<open>OPTIONS\<close> answer, the missing key, the body of a
  \<open>POST\<close>, and the choice of the action. \<open>body.action\<close> is read outside the \<open>try\<close>, so
  a body \<open>null\<close> makes the handler itself throw when the query has no action. The actions
  \<open>create\<close>, \<open>verify\<close> and \<open>subscribe\<close> are not embedded.
\<close>

datatype handled = Responds response | Raises | NotEmbedded

definition handler ::
  "(jsstr \<Rightarrow> jsstr) \<Rightarrow> config \<Rightarrow> faults \<Rightarrow> jsstr \<Rightarrow> httpEvent \<Rightarrow> world \<Rightarrow> handled \<times> world" where
  "handler lower cfg flt now ev w =
     (if httpMethod ev = lit ''OPTIONS''
      then (Responds \<lparr>statusCode = 200, r_ok = Some True, r_delivered = None, r_to = None,
                       r_message = None, r_error = None\<rparr>, w)
      else if \<not> truthy (STRIPE_SECRET_KEY cfg)
      then (Responds (failure 500 (lit ''Missing STRIPE_SECRET_KEY'')), w)
      else
        (let body = (if httpMethod ev = lit ''POST'' then posted ev else JsonValue None None) in
         if body = InvalidJson then (Responds (failure 400 (lit ''Invalid JSON body'')), w)
         else if \<not> truthy (q_action ev) \<and> body = JsonNull then (Raises, w)
         else
           (let action = asStr (orElse (q_action ev)
                                  (case body of JsonValue a sid \<Rightarrow> a | _ \<Rightarrow> None)) 20
            in if action = lit ''create'' then (NotEmbedded, w)
               else if action = lit ''verify'' then (NotEmbedded, w)
               else if action = lit ''deliver''
               then (case deliver lower cfg flt now (ev\<lparr>posted := body\<rparr>) w of
                       (r, w') \<Rightarrow> (Responds r, w'))
               else if action = lit ''subscribe'' then (NotEmbedded, w)
               else (Responds (failure 400
                       (lit ''Unknown action. Use ?action=create | verify | deliver | subscribe'')),
                     w))))"

section \<open>The derivation as the specification words it\<close>

text \<open>
  The specification's algorithm, for comparison with the code: concatenate
  \<open>countryCode|mode|userSeed|attemptNumber\<close>; fold the string with the accumulator
  starting at 2166136261, for each character XOR then multiply by 16777619, kept unsigned
  32-bit; seed a generator whose 32-bit state advances by \<open>0x6D2B79F5\<close> on each call and
  whose output is the mixed state divided by \<open>2^32\<close>; draw two values, map the first
  linearly into the latitude range and the second into the longitude range of the
  country (the default country when the code is unknown), and round both to 6 decimals.
\<close>

definition spec_concat :: "jsstr \<Rightarrow> jsstr \<Rightarrow> jsstr \<Rightarrow> nat \<Rightarrow> jsstr" where
  "spec_concat code md userSeed attempt =
     code @ lit ''|'' @ md @ lit ''|'' @ userSeed @ lit ''|'' @ numToString attempt"

definition spec_fnv1a :: "jsstr \<Rightarrow> int" where
  "spec_fnv1a str = fold (\<lambda>c acc. ((acc XOR uint c) * 16777619) mod 2 ^ 32) str 2166136261"

definition spec_mix :: "32 word \<Rightarrow> 32 word" where
  "spec_mix s =
     (let x = (s XOR drop_bit 15 s) * (s OR 1);
          y = x XOR (x + (x XOR drop_bit 7 x) * (x OR 61))
      in y XOR drop_bit 14 y)"

definition spec_generator :: "32 word \<Rightarrow> rat \<times> 32 word" where
  "spec_generator s = (let s' = s + 0x6D2B79F5 in (of_int (uint (spec_mix s')) / 2 ^ 32, s'))"

definition spec_linear :: "rat \<Rightarrow> rat \<Rightarrow> rat \<Rightarrow> rat" where
  "spec_linear lo hi u = fl (lo + fl (u * fl (hi - lo)))"

definition derivePoint :: "jsstr \<Rightarrow> jsstr \<Rightarrow> jsstr \<Rightarrow> nat \<Rightarrow> spot" where
  "derivePoint code md userSeed attempt =
     (let b = (case COUNTRY_BOUNDS code of Some b \<Rightarrow> b | None \<Rightarrow> NZ);
          s0 = (word_of_int (spec_fnv1a (spec_concat code md userSeed attempt)) :: 32 word);
          (u1, s1) = spec_generator s0;
          (u2, s2) = spec_generator s1
      in \<lparr>country = Some (name b),
          countryCode = code,
          mode = md,
          lat = Num (numberToFixed 6 (spec_linear (latMin b) (latMax b) u1)),
          lon = Num (numberToFixed 6 (spec_linear (lonMin b) (lonMax b) u2)),
          seed = code @ lit ''-'' @ md @ lit ''-'' @ toString16 s0,
          rerolls = attempt\<rparr>)"

section \<open>Auxiliary predicates\<close>

text \<open>
  What the containment proof needs of a range of the table: the limits are doubles in
  order, the largest generator output \<open>(2^32 - 1) / 2^32\<close> still maps below the upper
  limit, and rounding a limit to 6 decimals does not leave the range.
\<close>

definition goodRange :: "rat \<Rightarrow> rat \<Rightarrow> bool" where
  "goodRange lo hi \<longleftrightarrow>
     lo \<le> hi \<and> fl lo = lo \<and> fl (lo + fl (4294967295 / 4294967296 * fl (hi - lo))) \<le> hi \<and>
     lo \<le> numberToFixed 6 lo \<and> numberToFixed 6 hi \<le> hi \<and> \<bar>lo\<bar> < 10 ^ 21 \<and> \<bar>hi\<bar> < 10 ^ 21"

section \<open>Names for the statements\<close>

text \<open>
  \<open>toLowerCase\<close> on ASCII strings, for concrete runs; the theorems hold for any
  \<open>toLowerCase\<close>.
\<close>

definition asciiLower :: "jsstr \<Rightarrow> jsstr" where
  "asciiLower s = map (\<lambda>c. if 0x41 \<le> c \<and> c \<le> 0x5A then c + 0x20 else c) s"

text \<open>The attempt numbers a run derived a point for, in order.\<close>

fun derivations :: "event list \<Rightarrow> nat list" where
  "derivations [] = []"
| "derivations (Derive i # evs) = i # derivations evs"
| "derivations (e # evs) = derivations evs"

text \<open>
  The check and the spot that attempt \<open>i\<close> of \<open>rollUntilGood\<close> ends with (the body of
  its loop up to \<open>best = spot\<close>).
\<close>

definition attemptCheck :: "services \<Rightarrow> jsstr \<Rightarrow> nat \<Rightarrow> strongCheck" where
  "attemptCheck env md i =
     (case snd (strongLandCheck (toLowerCase env) (nominatim env i) (overpass env i) md) of
        Returns k \<Rightarrow> k
      | Throws msg \<Rightarrow>
          \<lparr>sc_ok = (md \<noteq> lit ''publicish''), level = lit ''error'',
           sc_place = lit ''Lookup unavailable'', nom = None, roads = None,
           sc_error = Some msg, sc_note = None\<rparr>)"

definition candidate :: "services \<Rightarrow> jsstr \<Rightarrow> jsstr \<Rightarrow> rat \<Rightarrow> jsstr \<Rightarrow> nat \<Rightarrow> picked" where
  "candidate env code md tileMeters userSeed i =
     (let c = rollCenter code md userSeed i
      in \<lparr>picked_center = c,
          picked_tile = (case (lat c, lon c) of
                    (Num la, Num lo) \<Rightarrow> Some (makeTileFromCenter (cosine env) la lo tileMeters)
                  | _ \<Rightarrow> None),
          picked_check = attemptCheck env md i\<rparr>)"

text \<open>Concrete answers and a concrete Stripe world for the runs below.\<close>

definition seaAnswer :: reverseData where
  "seaAnswer = \<lparr>rtype = Str (lit ''sea''), rcategory = Str (lit ''natural''),
     display_name = Str (lit ''Tasman Sea''), address = (\<lambda>k. Falsy)\<rparr>"

definition streetAnswer :: reverseData where
  "streetAnswer = \<lparr>rtype = Str (lit ''residential''), rcategory = Str (lit ''highway''),
     display_name = Str (lit ''Queen Street, Auckland, New Zealand''),
     address = (\<lambda>k. if k = lit ''road'' then Str (lit ''Queen Street'')
                     else if k = lit ''country'' then Str (lit ''New Zealand'') else Falsy)\<rparr>"

text \<open>
  Concrete surroundings: every request answered with an HTTP error; the sea for the first
  two attempts and HTTP errors from the third on; the sea for every attempt; a street for
  every attempt with the road service answering with an HTTP error.
\<close>

definition offline :: services where
  "offline = \<lparr>randomUUID = Returns (lit ''abc''), toLowerCase = asciiLower,
     cosine = (\<lambda>x. 1), nominatim = (\<lambda>i. HttpNotOk), overpass = (\<lambda>i. HttpNotOk)\<rparr>"

definition seaThenOffline :: services where
  "seaThenOffline = \<lparr>randomUUID = Returns (lit ''abc''), toLowerCase = asciiLower,
     cosine = (\<lambda>x. 1), nominatim = (\<lambda>i. if i < 3 then Body seaAnswer else HttpNotOk),
     overpass = (\<lambda>i. HttpNotOk)\<rparr>"


definition streetNoRoads :: services where
  "streetNoRoads = \<lparr>randomUUID = Returns (lit ''abc''), toLowerCase = asciiLower,
     cosine = (\<lambda>x. 1), nominatim = (\<lambda>i. Body streetAnswer), overpass = (\<lambda>i. HttpNotOk)\<rparr>"






section \<open>Rounding\<close>

text \<open>
  Rounding to the nearest double is monotone, odd, and exact on whole numbers below
  \<open>2^53\<close>; rounding to decimals is monotone. The bounds proofs need no more.
\<close>

lemma rne_of_int [simp]: "rne (of_int k) = k"
  by (simp add: rne_def)

lemma rne_mono:
  assumes xy: "x \<le> y"
  shows "rne x \<le> rne y"
proof -
  have fm: "\<lfloor>x\<rfloor> \<le> \<lfloor>y\<rfloor>" using xy by (rule floor_mono)
  have lo: "\<lfloor>z\<rfloor> \<le> rne z" for z by (simp add: rne_def Let_def)
  have hi: "rne z \<le> \<lfloor>z\<rfloor> + 1" for z by (simp add: rne_def Let_def)
  show ?thesis
  proof (cases "\<lfloor>x\<rfloor> = \<lfloor>y\<rfloor>")
    case True
    then have "x - of_int \<lfloor>x\<rfloor> \<le> y - of_int \<lfloor>y\<rfloor>" using xy by simp
    then show ?thesis using True by (auto simp: rne_def Let_def)
  next
    case False
    then have "\<lfloor>x\<rfloor> + 1 \<le> \<lfloor>y\<rfloor>" using fm by simp
    then show ?thesis using lo [of y] hi [of x] by linarith
  qed
qed

lemma rne_minus: "rne (- x) = - rne x"
proof (cases "x = of_int \<lfloor>x\<rfloor>")
  case True
  then have "rne (- x) = rne (of_int (- \<lfloor>x\<rfloor>))" by simp
  also have "\<dots> = - \<lfloor>x\<rfloor>" by (rule rne_of_int)
  also have "\<dots> = - rne x" using True by (metis rne_of_int)
  finally show ?thesis .
next
  case False
  then have "x \<notin> \<int>" by (metis Ints_cases floor_of_int)
  then have f: "\<lfloor>- x\<rfloor> = - \<lfloor>x\<rfloor> - 1"
    using False by (simp add: floor_minus ceiling_altdef)
  have fr: "x - of_int \<lfloor>x\<rfloor> \<noteq> 0" using False by simp
  show ?thesis using fr
    by (auto simp: rne_def Let_def f algebra_simps)
qed

lemma bitlen_powi:
  assumes "0 < (p::int)"
  shows "(2::rat) powi (bitlen p - 1) \<le> of_int p" and "of_int p < (2::rat) powi (bitlen p)"
proof -
  have b1: "1 \<le> bitlen p" using assms by (simp add: bitlen_alt_def)
  have bb: "2 ^ nat (bitlen p - 1) \<le> p \<and> p < 2 ^ nat (bitlen p)"
    using assms by (rule bitlen_bounds)
  have "(of_int (2 ^ nat (bitlen p - 1)) :: rat) \<le> of_int p"
    using bb by (simp only: of_int_le_iff)
  then show "(2::rat) powi (bitlen p - 1) \<le> of_int p"
    using b1 by (simp add: power_int_def)
  have "(of_int p :: rat) < of_int (2 ^ nat (bitlen p))"
    using bb by (simp only: of_int_less_iff)
  then show "of_int p < (2::rat) powi (bitlen p)"
    using b1 by (simp add: power_int_def)
qed

lemma ilog2_bounds:
  assumes "0 < x"
  shows "2 powi (ilog2 x) \<le> x \<and> x < 2 powi (ilog2 x + 1)"
proof -
  obtain p q where pq: "quotient_of x = (p, q)" by (cases "quotient_of x")
  have q0: "0 < q" using pq by (rule quotient_of_denom_pos)
  have xe: "x = of_int p / of_int q" using pq by (rule quotient_of_div)
  have p0: "0 < p" using assms q0 xe by (simp add: zero_less_divide_iff)
  define e where "e = bitlen p - bitlen q"
  have qr: "(0::rat) < of_int q" using q0 by simp
  have up: "x < 2 powi (e + 1)"
  proof -
    have "of_int p < (2::rat) powi (bitlen p)" using p0 by (rule bitlen_powi)
    also have "\<dots> = 2 powi (e + 1) * 2 powi (bitlen q - 1)"
      by (simp add: e_def flip: power_int_add)
    also have "\<dots> \<le> 2 powi (e + 1) * of_int q"
      using bitlen_powi(1) [OF q0] by (simp add: mult_left_mono)
    finally show ?thesis using qr by (simp add: xe pos_divide_less_eq)
  qed
  have low: "2 powi (e - 1) \<le> x"
  proof -
    have "2 powi (e - 1) * of_int q \<le> 2 powi (e - 1) * (2::rat) powi (bitlen q)"
      using bitlen_powi(2) [OF q0] by (simp add: mult_left_mono)
    also have "\<dots> = 2 powi (bitlen p - 1)"
      by (simp add: e_def flip: power_int_add)
    also have "\<dots> \<le> of_int p" using p0 by (rule bitlen_powi)
    finally show ?thesis using qr by (simp add: xe pos_le_divide_eq)
  qed
  have il: "ilog2 x = (if 2 powi e \<le> x then e else e - 1)"
    by (simp add: ilog2_def pq e_def Let_def)
  show ?thesis
  proof (cases "2 powi e \<le> x")
    case True
    then show ?thesis using up il by simp
  next
    case False
    then show ?thesis using low il by simp
  qed
qed

lemma ilog2_less:
  assumes "0 < x" "x < 2 powi n"
  shows "ilog2 x < n"
proof (rule ccontr)
  assume "\<not> ilog2 x < n"
  then have "(2::rat) powi n \<le> 2 powi (ilog2 x)"
    by (intro power_int_increasing) auto
  moreover have "2 powi (ilog2 x) \<le> x" using ilog2_bounds [OF assms(1)] by simp
  ultimately show False using assms(2) by linarith
qed

lemma ilog2_ge:
  assumes "0 < x" "2 powi n \<le> x"
  shows "n \<le> ilog2 x"
proof (rule ccontr)
  assume "\<not> n \<le> ilog2 x"
  then have "(2::rat) powi (ilog2 x + 1) \<le> 2 powi n"
    by (intro power_int_increasing) auto
  moreover have "x < 2 powi (ilog2 x + 1)" using ilog2_bounds [OF assms(1)] by simp
  ultimately show False using assms(2) by linarith
qed

lemma ilog2_mono:
  assumes "0 < x" "x \<le> y"
  shows "ilog2 x \<le> ilog2 y"
proof -
  have "2 powi (ilog2 x) \<le> y" using ilog2_bounds [OF assms(1)] assms(2) by simp
  then show ?thesis using assms by (intro ilog2_ge) auto
qed

lemma fl_alt:
  "x \<noteq> 0 \<Longrightarrow> fl x = of_int (rne (x / 2 powi (bexp x - 52))) * 2 powi (bexp x - 52)"
  by (simp add: fl_def Let_def)

lemma fl_zero [simp]: "fl 0 = 0"
  by (simp add: fl_def)

lemma fl_minus: "fl (- x) = - fl x"
proof (cases "x = 0")
  case True
  then show ?thesis by simp
next
  case False
  have b: "bexp (- x) = bexp x" by (simp add: bexp_def)
  have "fl (- x) = of_int (rne (- (x / 2 powi (bexp x - 52)))) * 2 powi (bexp x - 52)"
    using False by (simp add: fl_alt b)
  also have "\<dots> = - fl x" using False by (simp add: rne_minus fl_alt)
  finally show ?thesis .
qed

lemma fl_nonneg:
  assumes "0 \<le> x"
  shows "0 \<le> fl x"
proof (cases "x = 0")
  case True
  then show ?thesis by simp
next
  case False
  have "0 \<le> x / 2 powi (bexp x - 52)" using assms by simp
  then have "rne 0 \<le> rne (x / 2 powi (bexp x - 52))" by (rule rne_mono)
  then have "0 \<le> rne (x / 2 powi (bexp x - 52))" using rne_of_int [of 0] by simp
  then show ?thesis using False by (simp add: fl_alt)
qed

lemma powi_53: "of_int (2 ^ 53) * (2::rat) powi (b - 52) = 2 powi (b + 1)"
proof -
  have "(2::rat) powi 53 * 2 powi (b - 52) = 2 powi (53 + (b - 52))"
    by (subst power_int_add) auto
  moreover have "53 + (b - 52) = b + 1" by simp
  moreover have "(of_int (2 ^ 53) :: rat) = 2 powi 53" by simp
  ultimately show ?thesis by (simp only:)
qed

lemma powi_52: "of_int (2 ^ 52) * (2::rat) powi (b - 52) = 2 powi b"
proof -
  have "(2::rat) powi 52 * 2 powi (b - 52) = 2 powi (52 + (b - 52))"
    by (subst power_int_add) auto
  moreover have "52 + (b - 52) = b" by simp
  moreover have "(of_int (2 ^ 52) :: rat) = 2 powi 52" by simp
  ultimately show ?thesis by (simp only:)
qed

lemma fl_upper:
  assumes "0 < x"
  shows "fl x \<le> 2 powi (bexp x + 1)"
proof -
  let ?q = "(2::rat) powi (bexp x - 52)"
  have q0: "0 < ?q" by simp
  have "x < 2 powi (ilog2 x + 1)" using ilog2_bounds [OF assms] by simp
  also have "\<dots> \<le> 2 powi (bexp x + 1)"
    using assms by (intro power_int_increasing) (auto simp: bexp_def)
  finally have "x / ?q \<le> 2 powi (bexp x + 1) / ?q"
    using q0 by (simp add: divide_right_mono)
  also have "2 powi (bexp x + 1) / ?q = (2::rat) powi 53"
    by (simp flip: power_int_diff)
  also have "\<dots> = of_int (2 ^ 53)" by simp
  finally have "rne (x / ?q) \<le> rne (of_int (2 ^ 53))" by (rule rne_mono)
  then have "rne (x / ?q) \<le> 2 ^ 53" by (simp only: rne_of_int)
  then have "(of_int (rne (x / ?q)) :: rat) \<le> of_int (2 ^ 53)" by (simp only: of_int_le_iff)
  then have "of_int (rne (x / ?q)) * ?q \<le> of_int (2 ^ 53) * ?q"
    using q0 by (simp only: mult_le_cancel_right_pos)
  also have "of_int (2 ^ 53) * ?q = 2 powi (bexp x + 1)" by (rule powi_53)
  finally show ?thesis using assms by (simp add: fl_alt)
qed

lemma fl_lower:
  assumes "0 < x" "- 1022 \<le> ilog2 x"
  shows "2 powi (ilog2 x) \<le> fl x"
proof -
  have be: "bexp x = ilog2 x" using assms by (simp add: bexp_def)
  let ?q = "(2::rat) powi (ilog2 x - 52)"
  have q0: "0 < ?q" by simp
  have "2 powi (ilog2 x) \<le> x" using ilog2_bounds [OF assms(1)] by simp
  then have "2 powi (ilog2 x) / ?q \<le> x / ?q" using q0 by (simp add: divide_right_mono)
  moreover have "2 powi (ilog2 x) / ?q = (2::rat) powi 52"
    by (simp flip: power_int_diff)
  moreover have "(2::rat) powi 52 = of_int (2 ^ 52)" by simp
  ultimately have "of_int (2 ^ 52) \<le> x / ?q" by simp
  then have "rne (of_int (2 ^ 52)) \<le> rne (x / ?q)" by (rule rne_mono)
  then have "2 ^ 52 \<le> rne (x / ?q)" by (simp only: rne_of_int)
  then have "(of_int (2 ^ 52) :: rat) \<le> of_int (rne (x / ?q))" by (simp only: of_int_le_iff)
  then have "of_int (2 ^ 52) * ?q \<le> of_int (rne (x / ?q)) * ?q"
    using q0 by (simp only: mult_le_cancel_right_pos)
  moreover have "of_int (2 ^ 52) * ?q = 2 powi (ilog2 x)" by (rule powi_52)
  ultimately have "2 powi (ilog2 x) \<le> of_int (rne (x / ?q)) * ?q" by (simp only:)
  then show ?thesis using assms by (simp add: fl_alt be)
qed

lemma fl_mono_pos:
  assumes "0 < x" "x \<le> y"
  shows "fl x \<le> fl y"
proof -
  have y0: "0 < y" using assms by simp
  have le: "bexp x \<le> bexp y"
    using ilog2_mono [of x y] assms by (simp add: bexp_def)
  show ?thesis
  proof (cases "bexp x = bexp y")
    case True
    let ?q = "(2::rat) powi (bexp y - 52)"
    have q0: "0 < ?q" by simp
    have "x / ?q \<le> y / ?q" using assms q0 by (simp add: divide_right_mono)
    then have "rne (x / ?q) \<le> rne (y / ?q)" by (rule rne_mono)
    then have "(of_int (rne (x / ?q)) :: rat) * ?q \<le> of_int (rne (y / ?q)) * ?q"
      using q0 by (simp only: mult_le_cancel_right_pos of_int_le_iff)
    then show ?thesis using assms y0 True by (simp add: fl_alt)
  next
    case False
    then have lt: "bexp x + 1 \<le> bexp y" using le by simp
    then have iy: "bexp y = ilog2 y" "- 1022 \<le> ilog2 y"
      using y0 by (auto simp: bexp_def)
    have "fl x \<le> 2 powi (bexp x + 1)" using assms(1) by (rule fl_upper)
    also have "\<dots> \<le> 2 powi (ilog2 y)"
      using lt iy by (intro power_int_increasing) auto
    also have "\<dots> \<le> fl y" using y0 iy(2) by (rule fl_lower)
    finally show ?thesis .
  qed
qed

lemma fl_mono:
  assumes xy: "x \<le> y"
  shows "fl x \<le> fl y"
proof -
  consider "0 < x" | "x \<le> 0" "0 \<le> y" | "y < 0" using xy by linarith
  then show ?thesis
  proof cases
    case 1
    then show ?thesis using xy by (rule fl_mono_pos)
  next
    case 2
    have "fl x \<le> 0" using fl_nonneg [of "- x"] 2 by (simp add: fl_minus)
    moreover have "0 \<le> fl y" using 2 by (simp add: fl_nonneg)
    ultimately show ?thesis by simp
  next
    case 3
    then have "fl (- y) \<le> fl (- x)" using xy by (intro fl_mono_pos) auto
    then show ?thesis by (simp add: fl_minus)
  qed
qed

lemma fl_of_int:
  assumes "\<bar>k\<bar> < 2 ^ 53"
  shows "fl (of_int k) = of_int k"
proof (cases "k = 0")
  case True
  then show ?thesis by simp
next
  case False
  let ?x = "of_int k :: rat"
  define e where "e = ilog2 \<bar>?x\<bar>"
  have x0: "0 < \<bar>?x\<bar>" using False by simp
  have "\<bar>?x\<bar> < of_int (2 ^ 53)" using assms by (simp only: of_int_less_iff flip: of_int_abs)
  then have "\<bar>?x\<bar> < 2 powi 53" by simp
  then have e53: "e < 53" unfolding e_def using x0 by (intro ilog2_less)
  have "1 \<le> \<bar>k\<bar>" using False by simp
  then have "(of_int 1 :: rat) \<le> of_int \<bar>k\<bar>" by (simp only: of_int_le_iff)
  then have "2 powi 0 \<le> \<bar>?x\<bar>" by simp
  then have e0: "0 \<le> e" unfolding e_def using x0 by (intro ilog2_ge)
  have be: "bexp ?x = e" using e0 by (simp add: bexp_def e_def)
  define m where "m = nat (52 - e)"
  have q: "(2::rat) powi (e - 52) = 1 / 2 ^ m"
    using e53 by (simp add: power_int_def m_def divide_simps)
  have "?x / 2 powi (e - 52) = of_int (k * 2 ^ m)" by (simp add: q)
  then have "rne (?x / 2 powi (e - 52)) = k * 2 ^ m" by (simp only: rne_of_int)
  then have "fl ?x = of_int (k * 2 ^ m) * (1 / 2 ^ m)"
    using False by (simp add: fl_alt be q)
  then show ?thesis by simp
qed

lemma roundHalfAway_mono:
  assumes xy: "x \<le> y"
  shows "roundHalfAway x \<le> roundHalfAway y"
proof -
  consider "y < 0" | "x < 0" "0 \<le> y" | "0 \<le> x" using xy by linarith
  then show ?thesis
  proof cases
    case 1
    then have "\<lfloor>- y + 1 / 2\<rfloor> \<le> \<lfloor>- x + 1 / 2\<rfloor>" using xy by (intro floor_mono) simp
    then show ?thesis using 1 xy by (simp add: roundHalfAway_def)
  next
    case 2
    have "0 \<le> \<lfloor>- x + 1 / 2\<rfloor>" using 2 by simp
    moreover have "0 \<le> \<lfloor>y + 1 / 2\<rfloor>" using 2 by simp
    moreover have "roundHalfAway x = - \<lfloor>- x + 1 / 2\<rfloor>"
      using 2 by (simp add: roundHalfAway_def)
    moreover have "roundHalfAway y = \<lfloor>y + 1 / 2\<rfloor>"
      using 2 by (simp add: roundHalfAway_def)
    ultimately show ?thesis by linarith
  next
    case 3
    then have "\<lfloor>x + 1 / 2\<rfloor> \<le> \<lfloor>y + 1 / 2\<rfloor>" using xy by (intro floor_mono) simp
    then show ?thesis using 3 xy by (simp add: roundHalfAway_def)
  qed
qed

lemma roundHalfAway_of_int [simp]: "roundHalfAway (of_int k) = k"
proof -
  have "\<lfloor>of_int k + (1 / 2 :: rat)\<rfloor> = k" by (simp add: floor_unique)
  moreover have "\<lfloor>- of_int k + (1 / 2 :: rat)\<rfloor> = - k"
    by (rule floor_unique) simp_all
  ultimately show ?thesis by (simp add: roundHalfAway_def)
qed

lemma decimals_mono:
  assumes "x \<le> y"
  shows "decimals d x \<le> decimals d y"
proof -
  have "x * 10 ^ d \<le> y * 10 ^ d" using assms by simp
  then have "roundHalfAway (x * 10 ^ d) \<le> roundHalfAway (y * 10 ^ d)"
    by (rule roundHalfAway_mono)
  then have "(of_int (roundHalfAway (x * 10 ^ d)) :: rat) \<le> of_int (roundHalfAway (y * 10 ^ d))"
    by (simp only: of_int_le_iff)
  then show ?thesis by (simp add: decimals_def divide_right_mono)
qed

text \<open>Rules that evaluate \<open>fl\<close> and the decimal rounding at a given number.\<close>

lemma rne_eqI:
  assumes "\<bar>x - of_int k\<bar> < 1 / 2"
  shows "rne x = k"
proof -
  have b: "of_int k - 1 / 2 < x" "x < of_int k + 1 / 2" using assms by linarith+
  have fk: "\<lfloor>x\<rfloor> = k \<or> \<lfloor>x\<rfloor> = k - 1" using b by linarith
  show ?thesis
  proof (cases "\<lfloor>x\<rfloor> = k")
    case True
    have "x - of_int k < 1 / 2" using b by linarith
    then show ?thesis unfolding rne_def Let_def True by simp
  next
    case False
    then have f: "\<lfloor>x\<rfloor> = k - 1" using fk by simp
    have "1 / 2 < x - of_int (k - 1)" using b by simp
    then show ?thesis unfolding rne_def Let_def f by simp
  qed
qed

lemma rne_tie:
  assumes "x = of_int f + 1 / 2"
  shows "rne x = (if even f then f else f + 1)"
proof -
  have "\<lfloor>x\<rfloor> = f" unfolding assms by (rule floor_unique) simp_all
  then show ?thesis by (simp add: rne_def Let_def assms)
qed

lemma bexp_eqI:
  assumes "2 powi e \<le> \<bar>x\<bar>" "\<bar>x\<bar> < 2 powi (e + 1)" "- 1022 \<le> e"
  shows "bexp x = e" and "x \<noteq> 0"
proof -
  have x0: "0 < \<bar>x\<bar>" using assms(1) zero_less_power_int [of "2::rat" e] by linarith
  have "ilog2 \<bar>x\<bar> < e + 1" using x0 assms(2) by (rule ilog2_less)
  moreover have "e \<le> ilog2 \<bar>x\<bar>" using x0 assms(1) by (rule ilog2_ge)
  ultimately show "bexp x = e" using assms(3) by (simp add: bexp_def)
  show "x \<noteq> 0" using x0 by simp
qed

lemma fl_eqI:
  assumes "2 powi e \<le> \<bar>x\<bar>" "\<bar>x\<bar> < 2 powi (e + 1)" "- 1022 \<le> e"
    and "\<bar>x / 2 powi (e - 52) - of_int k\<bar> < 1 / 2"
    and "y = of_int k * 2 powi (e - 52)"
  shows "fl x = y"
  using bexp_eqI [OF assms(1-3)] rne_eqI [OF assms(4)] assms(5) by (simp add: fl_alt)

lemma fl_tieI:
  assumes "2 powi e \<le> \<bar>x\<bar>" "\<bar>x\<bar> < 2 powi (e + 1)" "- 1022 \<le> e"
    and "x / 2 powi (e - 52) = of_int f + 1 / 2"
    and "y = of_int (if even f then f else f + 1) * 2 powi (e - 52)"
  shows "fl x = y"
  using bexp_eqI [OF assms(1-3)] rne_tie [OF assms(4)] assms(5) by (simp add: fl_alt)

lemma roundHalfAway_eqI:
  assumes "\<bar>x - of_int k\<bar> < 1 / 2"
  shows "roundHalfAway x = k"
proof -
  have b: "of_int k - 1 / 2 < x" "x < of_int k + 1 / 2" using assms by linarith+
  have "\<lfloor>x + 1 / 2\<rfloor> = k" using b by linarith
  moreover have "\<lfloor>- x + 1 / 2\<rfloor> = - k" using b by linarith
  ultimately show ?thesis by (simp add: roundHalfAway_def)
qed

lemma roundHalfAway_minus: "roundHalfAway (- x) = - roundHalfAway x"
proof -
  have "\<lfloor>(1 / 2 :: rat)\<rfloor> = 0" by (rule floor_unique) simp_all
  then show ?thesis by (simp add: roundHalfAway_def)
qed

lemma roundHalfAway_numeral [simp]: "roundHalfAway (numeral n) = numeral n"
  using roundHalfAway_of_int [of "numeral n"] by simp

section \<open>The generator stays inside the country's rectangle\<close>

lemma rng_range: "0 \<le> fst (rng t) \<and> fst (rng t) \<le> 4294967295 / 4294967296"
proof -
  obtain w :: "32 word" where w: "fst (rng t) = of_int (uint w) / 4294967296"
    unfolding rng_def Let_def fst_conv by blast
  define x where "x = (of_int (uint w) :: rat)"
  have "uint w < 4294967296" using uint_bounded [of w] by simp
  then have "uint w \<le> 4294967295" by simp
  then have "(of_int (uint w) :: rat) \<le> of_int 4294967295" by (simp only: of_int_le_iff)
  then have x1: "x \<le> 4294967295" by (simp add: x_def)
  have "0 \<le> uint w" by simp
  then have "(0::rat) \<le> of_int (uint w)" by (simp only: of_int_0_le_iff)
  then have x0: "0 \<le> x" by (simp add: x_def)
  have "fst (rng t) = x / 4294967296" by (simp only: w x_def)
  then show ?thesis using x0 x1 by simp
qed

lemma scaled_in_range:
  assumes g: "goodRange lo hi" and u: "0 \<le> u" "u \<le> 4294967295 / 4294967296"
  shows "lo \<le> fl (lo + fl (u * fl (hi - lo)))" and "fl (lo + fl (u * fl (hi - lo))) \<le> hi"
proof -
  define d where "d = fl (hi - lo)"
  have d0: "0 \<le> d" unfolding d_def using g by (intro fl_nonneg) (simp add: goodRange_def)
  have "0 \<le> u * d" using u d0 by simp
  then have p0: "0 \<le> fl (u * d)" by (rule fl_nonneg)
  have "u * d \<le> 4294967295 / 4294967296 * d" using u d0 by (intro mult_right_mono)
  then have p1: "fl (u * d) \<le> fl (4294967295 / 4294967296 * d)" by (rule fl_mono)
  have "fl lo \<le> fl (lo + fl (u * d))" using p0 by (intro fl_mono) simp
  then show "lo \<le> fl (lo + fl (u * fl (hi - lo)))"
    using g by (simp add: goodRange_def d_def)
  have "fl (lo + fl (u * d)) \<le> fl (lo + fl (4294967295 / 4294967296 * d))"
    using p1 by (intro fl_mono) simp
  also have "\<dots> \<le> hi" using g by (simp add: goodRange_def d_def)
  finally show "fl (lo + fl (u * fl (hi - lo))) \<le> hi" by (simp add: d_def)
qed

lemma fixed_in_range:
  assumes g: "goodRange lo hi" and x: "lo \<le> x" "x \<le> hi"
  shows "lo \<le> numberToFixed 6 x" and "numberToFixed 6 x \<le> hi"
proof -
  have small: "\<bar>x\<bar> < 10 ^ 21" "\<bar>lo\<bar> < 10 ^ 21" "\<bar>hi\<bar> < 10 ^ 21"
    using g x by (auto simp: goodRange_def)
  then have t: "toFixed 6 x = decimals 6 x" "toFixed 6 lo = decimals 6 lo"
    "toFixed 6 hi = decimals 6 hi"
    by (simp_all add: toFixed_def)
  have "fl (decimals 6 lo) \<le> fl (decimals 6 x)"
    using x(1) by (intro fl_mono decimals_mono)
  then show "lo \<le> numberToFixed 6 x"
    using g by (simp add: goodRange_def numberToFixed_def t)
  have "fl (decimals 6 x) \<le> fl (decimals 6 hi)"
    using x(2) by (intro fl_mono decimals_mono)
  then show "numberToFixed 6 x \<le> hi"
    using g by (simp add: goodRange_def numberToFixed_def t)
qed

lemma coordinate_in_range:
  assumes "goodRange lo hi"
  shows "lo \<le> numberToFixed 6 (fl (lo + fl (fst (rng t) * fl (hi - lo))))
       \<and> numberToFixed 6 (fl (lo + fl (fst (rng t) * fl (hi - lo)))) \<le> hi"
  using fixed_in_range [OF assms scaled_in_range [OF assms, of "fst (rng t)"]] rng_range [of t]
  by simp

text \<open>The ten ranges of the table, each checked with the exact values of its doubles.\<close>

lemma range_NZ_lat: "goodRange (latMin NZ) (latMax NZ)"
proof -
  have f1: "fl (95 / 2) = 95 / 2"
    by (rule fl_eqI [where e = "5" and k = "6685030696878080"]) simp_all
  have f2: "fl 34 = 34"
    by (rule fl_eqI [where e = "5" and k = "4785074604081152"]) simp_all
  have f3: "fl (27 / 2) = 27 / 2"
    by (rule fl_eqI [where e = "3" and k = "7599824371187712"]) simp_all
  have f4: "fl (115964116965 / 8589934592) = 115964116965 / 8589934592"
    by (rule fl_eqI [where e = "3" and k = "7599824369418240"]) simp_all
  have f5: "fl (292057776155 / 8589934592) = 292057776155 / 8589934592"
    by (rule fl_eqI [where e = "5" and k = "4785074604523520"]) simp_all
  show ?thesis
    by (simp add: goodRange_def NZ_def numberToFixed_def toFixed_def decimals_def fl_minus
        roundHalfAway_minus f1 f2 f3 f4 f5)
qed

lemma range_NZ_lon: "goodRange (lonMin NZ) (lonMax NZ)"
proof -
  have f1: "fl 166 = 166"
    by (rule fl_eqI [where e = "7" and k = "5840605766746112"]) simp_all
  have f2: "fl (899 / 5) = 3163075050785997 / 17592186044416"
    by (rule fl_eqI [where e = "7" and k = "6326150101571994"]) simp_all
  have f3: "fl (242772167412941 / 17592186044416) = 242772167412941 / 17592186044416"
    by (rule fl_eqI [where e = "3" and k = "7768709357214112"]) simp_all
  have f4: "fl (1042698519174846354764595 / 75557863725914323419136) = 3884354677702659 / 281474976710656"
    by (rule fl_eqI [where e = "3" and k = "7768709355405318"]) simp_all
  have f5: "fl (50609200811671555 / 281474976710656) = 772235119807 / 4294967296"
    by (rule fl_eqI [where e = "7" and k = "6326150101458944"]) simp_all
  have f6: "roundHalfAway (49423047668531203125 / 274877906944) = 179800000"
    by (rule roundHalfAway_eqI) simp
  have f7: "fl (3163075050785997 / 17592186044416) = 3163075050785997 / 17592186044416"
    by (rule fl_eqI [where e = "7" and k = "6326150101571994"]) simp_all
  show ?thesis
    by (simp add: goodRange_def NZ_def numberToFixed_def toFixed_def decimals_def fl_minus
        roundHalfAway_minus f1 f2 f3 f4 f5 f6 f7)
qed

lemma range_AU_lat: "goodRange (latMin AU) (latMax AU)"
proof -
  have f1: "fl (219 / 5) = 3082150994981683 / 70368744177664"
    by (rule fl_eqI [where e = "5" and k = "6164301989963366"]) simp_all
  have f2: "fl 10 = 10"
    by (rule fl_eqI [where e = "3" and k = "5629499534213120"]) simp_all
  have f3: "fl (3082150994981683 / 70368744177664) = 3082150994981683 / 70368744177664"
    by (rule fl_eqI [where e = "5" and k = "6164301989963366"]) simp_all
  have f4: "fl (2378463553205043 / 70368744177664) = 2378463553205043 / 70368744177664"
    by (rule fl_eqI [where e = "5" and k = "4756927106410086"]) simp_all
  have f5: "fl (10215423173365152114068685 / 302231454903657293676544) = 145169894571 / 4294967296"
    by (rule fl_eqI [where e = "5" and k = "4756927105302528"]) simp_all
  have f6: "fl (703687442330419 / 70368744177664) = 703687442330419 / 70368744177664"
    by (rule fl_eqI [where e = "3" and k = "5629499538643352"]) simp_all
  have f7: "roundHalfAway (48158609296588796875 / 1099511627776) = 43800000"
    by (rule roundHalfAway_eqI) simp
  show ?thesis
    by (simp add: goodRange_def AU_def numberToFixed_def toFixed_def decimals_def fl_minus
        roundHalfAway_minus f1 f2 f3 f4 f5 f6 f7)
qed

lemma range_AU_lon: "goodRange (lonMin AU) (lonMax AU)"
proof -
  have f1: "fl 112 = 112"
    by (rule fl_eqI [where e = "6" and k = "7881299347898368"]) simp_all
  have f2: "fl 154 = 154"
    by (rule fl_eqI [where e = "7" and k = "5418393301680128"]) simp_all
  have f3: "fl 42 = 42"
    by (rule fl_eqI [where e = "5" and k = "5910974510923776"]) simp_all
  have f4: "fl (90194313195 / 2147483648) = 90194313195 / 2147483648"
    by (rule fl_eqI [where e = "5" and k = "5910974509547520"]) simp_all
  have f5: "fl (330712481771 / 2147483648) = 330712481771 / 2147483648"
    by (rule fl_eqI [where e = "7" and k = "5418393301336064"]) simp_all
  show ?thesis
    by (simp add: goodRange_def AU_def numberToFixed_def toFixed_def decimals_def fl_minus
        roundHalfAway_minus f1 f2 f3 f4 f5)
qed

lemma range_US_lat: "goodRange (latMin US) (latMax US)"
proof -
  have f1: "fl (49 / 2) = 49 / 2"
    by (rule fl_eqI [where e = "4" and k = "6896136929411072"]) simp_all
  have f2: "fl (99 / 2) = 99 / 2"
    by (rule fl_eqI [where e = "5" and k = "6966505673588736"]) simp_all
  have f3: "fl 25 = 25"
    by (rule fl_eqI [where e = "4" and k = "7036874417766400"]) simp_all
  have f4: "fl (107374182375 / 4294967296) = 107374182375 / 4294967296"
    by (rule fl_eqI [where e = "4" and k = "7036874416128000"]) simp_all
  have f5: "fl (212600881127 / 4294967296) = 212600881127 / 4294967296"
    by (rule fl_eqI [where e = "5" and k = "6966505672769536"]) simp_all
  show ?thesis
    by (simp add: goodRange_def US_def numberToFixed_def toFixed_def decimals_def fl_minus
        roundHalfAway_minus f1 f2 f3 f4 f5)
qed

lemma range_US_lon: "goodRange (lonMin US) (lonMax US)"
proof -
  have f1: "fl 125 = 125"
    by (rule fl_eqI [where e = "6" and k = "8796093022208000"]) simp_all
  have f2: "fl (133 / 2) = 133 / 2"
    by (rule fl_eqI [where e = "6" and k = "4679521487814656"]) simp_all
  have f3: "fl (117 / 2) = 117 / 2"
    by (rule fl_eqI [where e = "5" and k = "8233143068786688"]) simp_all
  have f4: "fl (502511173515 / 8589934592) = 502511173515 / 8589934592"
    by (rule fl_eqI [where e = "5" and k = "8233143066869760"]) simp_all
  have f5: "fl (571230650485 / 8589934592) = 571230650485 / 8589934592"
    by (rule fl_eqI [where e = "6" and k = "4679521488773120"]) simp_all
  show ?thesis
    by (simp add: goodRange_def US_def numberToFixed_def toFixed_def decimals_def fl_minus
        roundHalfAway_minus f1 f2 f3 f4 f5)
qed

lemma range_GB_lat: "goodRange (latMin GB) (latMax GB)"
proof -
  have f1: "fl (249 / 5) = 3504363460047667 / 70368744177664"
    by (rule fl_eqI [where e = "5" and k = "7008726920095334"]) simp_all
  have f2: "fl 59 = 59"
    by (rule fl_eqI [where e = "5" and k = "8303511812964352"]) simp_all
  have f3: "fl (3504363460047667 / 70368744177664) = 3504363460047667 / 70368744177664"
    by (rule fl_eqI [where e = "5" and k = "7008726920095334"]) simp_all
  have f4: "fl (647392446434509 / 70368744177664) = 647392446434509 / 70368744177664"
    by (rule fl_eqI [where e = "3" and k = "5179139571476072"]) simp_all
  have f5: "fl (2780529384466255514383155 / 302231454903657293676544) = 2589569785135105 / 281474976710656"
    by (rule fl_eqI [where e = "3" and k = "5179139570270210"]) simp_all
  have f6: "fl (16607023625325773 / 281474976710656) = 4151755906331443 / 70368744177664"
    by (rule fl_tieI [where e = "5" and f = "8303511812662886"]) simp_all
  have f7: "roundHalfAway (54755679063244796875 / 1099511627776) = 49800000"
    by (rule roundHalfAway_eqI) simp
  show ?thesis
    by (simp add: goodRange_def GB_def numberToFixed_def toFixed_def decimals_def fl_minus
        roundHalfAway_minus f1 f2 f3 f4 f5 f6 f7)
qed

lemma range_GB_lon: "goodRange (lonMin GB) (lonMax GB)"
proof -
  have f1: "fl (43 / 5) = 4841369599423283 / 562949953421312"
    by (rule fl_eqI [where e = "3" and k = "4841369599423283"]) simp_all
  have f2: "fl (9 / 5) = 8106479329266893 / 4503599627370496"
    by (rule fl_eqI [where e = "0" and k = "8106479329266893"]) simp_all
  have f3: "fl (4841369599423283 / 562949953421312) = 4841369599423283 / 562949953421312"
    by (rule fl_eqI [where e = "3" and k = "4841369599423283"]) simp_all
  have f4: "fl (46837436124653157 / 4503599627370496) = 5854679515581645 / 562949953421312"
    by (rule fl_eqI [where e = "3" and k = "5854679515581645"]) simp_all
  have f5: "fl (25145657042129608177300275 / 2417851639229258349412352) = 11166914967 / 1073741824"
    by (rule fl_eqI [where e = "3" and k = "5854679514218496"]) simp_all
  have f6: "fl (1013309914795213 / 562949953421312) = 1013309914795213 / 562949953421312"
    by (rule fl_eqI [where e = "0" and k = "8106479318361704"]) simp_all
  have f7: "roundHalfAway (75646399990988796875 / 8796093022208) = 8600000"
    by (rule roundHalfAway_eqI) simp
  have f8: "roundHalfAway (126663739519795203125 / 70368744177664) = 1800000"
    by (rule roundHalfAway_eqI) simp
  have f9: "fl (8106479329266893 / 4503599627370496) = 8106479329266893 / 4503599627370496"
    by (rule fl_eqI [where e = "0" and k = "8106479329266893"]) simp_all
  show ?thesis
    by (simp add: goodRange_def GB_def numberToFixed_def toFixed_def decimals_def fl_minus
        roundHalfAway_minus f1 f2 f3 f4 f5 f6 f7 f8 f9)
qed

lemma range_JP_lat: "goodRange (latMin JP) (latMax JP)"
proof -
  have f1: "fl 30 = 30"
    by (rule fl_eqI [where e = "4" and k = "8444249301319680"]) simp_all
  have f2: "fl (229 / 5) = 3222888483337011 / 70368744177664"
    by (rule fl_eqI [where e = "5" and k = "6445776966674022"]) simp_all
  have f3: "fl (1111826158007091 / 70368744177664) = 1111826158007091 / 70368744177664"
    by (rule fl_eqI [where e = "3" and k = "8894609264056728"]) simp_all
  have f4: "fl (4775256986365958223088845 / 302231454903657293676544) = 4447304630992895 / 281474976710656"
    by (rule fl_eqI [where e = "3" and k = "8894609261985790"]) simp_all
  have f5: "fl (12891553932312575 / 281474976710656) = 196709502141 / 4294967296"
    by (rule fl_tieI [where e = "5" and f = "6445776966156287"]) simp_all
  have f6: "roundHalfAway (50357632552140796875 / 1099511627776) = 45800000"
    by (rule roundHalfAway_eqI) simp
  have f7: "fl (3222888483337011 / 70368744177664) = 3222888483337011 / 70368744177664"
    by (rule fl_eqI [where e = "5" and k = "6445776966674022"]) simp_all
  show ?thesis
    by (simp add: goodRange_def JP_def numberToFixed_def toFixed_def decimals_def fl_minus
        roundHalfAway_minus f1 f2 f3 f4 f5 f6 f7)
qed

lemma range_JP_lon: "goodRange (lonMin JP) (lonMax JP)"
proof -
  have f1: "fl 129 = 129"
    by (rule fl_eqI [where e = "7" and k = "4538783999459328"]) simp_all
  have f2: "fl (729 / 5) = 2564940725275853 / 17592186044416"
    by (rule fl_eqI [where e = "7" and k = "5129881450551706"]) simp_all
  have f3: "fl (295548725546189 / 17592186044416) = 295548725546189 / 17592186044416"
    by (rule fl_eqI [where e = "4" and k = "4728779608739024"]) simp_all
  have f4: "fl (1269372110299812766888755 / 75557863725914323419136) = 4728779607638019 / 281474976710656"
    by (rule fl_eqI [where e = "4" and k = "4728779607638019"]) simp_all
  have f5: "fl (41039051603312643 / 281474976710656) = 156551557935 / 1073741824"
    by (rule fl_eqI [where e = "7" and k = "5129881450414080"]) simp_all
  have f6: "roundHalfAway (40077198832435203125 / 274877906944) = 145800000"
    by (rule roundHalfAway_eqI) simp
  have f7: "fl (2564940725275853 / 17592186044416) = 2564940725275853 / 17592186044416"
    by (rule fl_eqI [where e = "7" and k = "5129881450551706"]) simp_all
  show ?thesis
    by (simp add: goodRange_def JP_def numberToFixed_def toFixed_def decimals_def fl_minus
        roundHalfAway_minus f1 f2 f3 f4 f5 f6 f7)
qed

lemmas table_ranges =
  range_NZ_lat range_NZ_lon range_AU_lat range_AU_lon range_US_lat range_US_lon
  range_GB_lat range_GB_lon range_JP_lat range_JP_lon

lemma table_cases:
  assumes "COUNTRY_BOUNDS code = Some b"
  shows "b = NZ \<or> b = AU \<or> b = US \<or> b = GB \<or> b = JP"
  using assms by (auto simp: COUNTRY_BOUNDS_def split: if_splits)

lemma table_good:
  assumes "COUNTRY_BOUNDS code = Some b"
  shows "goodRange (latMin b) (latMax b)" and "goodRange (lonMin b) (lonMax b)"
  using table_cases [OF assms] table_ranges by auto

lemma boundsFor_table: "COUNTRY_BOUNDS code = Some b \<Longrightarrow> boundsFor code = Inr b"
  by (simp add: boundsFor_def getProperty_def)


section \<open>The code against the specification's derivation\<close>

lemma fnv_step:
  "uint ((h XOR ucast (c :: 16 word)) * 16777619 :: 32 word)
     = ((uint h XOR uint c) * 16777619) mod 2 ^ 32"
proof -
  have "uint (ucast c :: 32 word) = uint c"
    by (rule uint_up_ucast) (simp add: is_up)
  then have "uint (h XOR ucast c) = uint h XOR uint c" by (simp only: uint_xor)
  moreover have "uint (16777619 :: 32 word) = 16777619" by simp
  ultimately show ?thesis by (simp add: uint_word_ariths)
qed

lemma fnv_fold:
  "uint (fold (\<lambda>c h. (h XOR ucast c) * 16777619) (str :: jsstr) (h0 :: 32 word))
     = fold (\<lambda>c acc. ((acc XOR uint c) * 16777619) mod 2 ^ 32) str (uint h0)"
  by (induction str arbitrary: h0) (simp_all add: fnv_step)

lemma hash_refines: "uint (hashStrToSeed str) = spec_fnv1a str"
proof -
  have "uint (2166136261 :: 32 word) = 2166136261" by simp
  then show ?thesis unfolding hashStrToSeed_def spec_fnv1a_def by (simp only: fnv_fold)
qed

lemma rng_refines:
  "fst (spec_generator (word_of_int t)) = fst (rng t)"
  "snd (spec_generator (word_of_int t)) = word_of_int (snd (rng t))"
  by (simp_all add: rng_def spec_generator_def spec_mix_def Let_def or.commute)


lemma boundsFor_cases:
  assumes "code \<notin> set (lit ''__proto__'' # objectPrototypeMethods)"
  shows "boundsFor code = Inr (case COUNTRY_BOUNDS code of Some b \<Rightarrow> b | None \<Rightarrow> NZ)"
proof -
  have "lit ''constructor'' \<in> set objectPrototypeMethods"
    by (simp add: objectPrototypeMethods_def)
  then have "code \<noteq> lit ''constructor''" using assms by auto
  then show ?thesis using assms
    by (simp add: boundsFor_def getProperty_def split: option.split)
qed

lemma rollSpot_closed:
  assumes "boundsFor code = Inr b"
  shows "rollSpot code md us n =
    \<lparr>country = Some (name b), countryCode = code, mode = md,
     lat = Num (numberToFixed 6 (fl (latMin b + fl (fst (rng (uint (hashStrToSeed
             (code @ lit ''|'' @ md @ lit ''|'' @ us @ lit ''|'' @ numToString n))))
             * fl (latMax b - latMin b))))),
     lon = Num (numberToFixed 6 (fl (lonMin b + fl (fst (rng (snd (rng (uint (hashStrToSeed
             (code @ lit ''|'' @ md @ lit ''|'' @ us @ lit ''|'' @ numToString n))))))
             * fl (lonMax b - lonMin b))))),
     seed = code @ lit ''-'' @ md @ lit ''-'' @ toString16 (hashStrToSeed
             (code @ lit ''|'' @ md @ lit ''|'' @ us @ lit ''|'' @ numToString n)),
     rerolls = n\<rparr>"
  by (simp add: rollSpot_def assms Let_def case_prod_beta nameOf_def mulberry32_def)

lemma rollCenter_closed:
  assumes "boundsFor code = Inr b"
  shows "rollCenter code md us n =
    \<lparr>country = Some (name b), countryCode = code, mode = md,
     lat = Num (numberToFixed 6 (fl (latMin b + fl (fst (rng (uint (hashStrToSeed
             (code @ lit ''|'' @ md @ lit ''|'' @ us @ lit ''|'' @ numToString n))))
             * fl (latMax b - latMin b))))),
     lon = Num (numberToFixed 6 (fl (lonMin b + fl (fst (rng (snd (rng (uint (hashStrToSeed
             (code @ lit ''|'' @ md @ lit ''|'' @ us @ lit ''|'' @ numToString n))))))
             * fl (lonMax b - lonMin b))))),
     seed = code @ lit ''-'' @ md @ lit ''-'' @ toString16 (hashStrToSeed
             (code @ lit ''|'' @ md @ lit ''|'' @ us @ lit ''|'' @ numToString n)),
     rerolls = n, brand = BRAND\<rparr>"
  by (simp add: rollCenter_def assms Let_def case_prod_beta nameOf_def mulberry32_def)

lemma rollSpot_v1_closed:
  assumes "boundsFor code = Inr b" "md \<noteq> lit ''publicish''"
  shows "rollSpot_v1 code md us n =
    \<lparr>country = Some (name b), countryCode = code, mode = md,
     lat = Num (numberToFixed 6 (fl (latMin b + fl (fst (rng (uint (hashStrToSeed
             (code @ lit ''|'' @ md @ lit ''|'' @ us @ lit ''|'' @ numToString n))))
             * fl (latMax b - latMin b))))),
     lon = Num (numberToFixed 6 (fl (lonMin b + fl (fst (rng (snd (rng (uint (hashStrToSeed
             (code @ lit ''|'' @ md @ lit ''|'' @ us @ lit ''|'' @ numToString n))))))
             * fl (lonMax b - lonMin b))))),
     seed = code @ lit ''-'' @ md @ lit ''-'' @ toString16 (hashStrToSeed
             (code @ lit ''|'' @ md @ lit ''|'' @ us @ lit ''|'' @ numToString n)),
     rerolls = n\<rparr>"
proof -
  have "rollTries b md k t acc =
      (fl (latMin b + fl (fst (rng t) * fl (latMax b - latMin b))),
       fl (lonMin b + fl (fst (rng (snd (rng t))) * fl (lonMax b - lonMin b))))"
    if "0 < k" for k t acc
    using that assms(2) by (cases k) (simp_all add: Let_def case_prod_beta)
  then show ?thesis
    by (simp add: rollSpot_v1_def assms Let_def case_prod_beta nameOf_def mulberry32_def)
qed

lemma derivePoint_closed:
  "derivePoint code md us n =
    (let b = (case COUNTRY_BOUNDS code of Some b \<Rightarrow> b | None \<Rightarrow> NZ) in
    \<lparr>country = Some (name b), countryCode = code, mode = md,
     lat = Num (numberToFixed 6 (fl (latMin b + fl (fst (rng (uint (hashStrToSeed
             (code @ lit ''|'' @ md @ lit ''|'' @ us @ lit ''|'' @ numToString n))))
             * fl (latMax b - latMin b))))),
     lon = Num (numberToFixed 6 (fl (lonMin b + fl (fst (rng (snd (rng (uint (hashStrToSeed
             (code @ lit ''|'' @ md @ lit ''|'' @ us @ lit ''|'' @ numToString n))))))
             * fl (lonMax b - lonMin b))))),
     seed = code @ lit ''-'' @ md @ lit ''-'' @ toString16 (hashStrToSeed
             (code @ lit ''|'' @ md @ lit ''|'' @ us @ lit ''|'' @ numToString n)),
     rerolls = n\<rparr>)"
proof -
  define h where "h = hashStrToSeed (code @ lit ''|'' @ md @ lit ''|'' @ us @ lit ''|'' @ numToString n)"
  have s0: "(word_of_int (spec_fnv1a (spec_concat code md us n)) :: 32 word) = h"
    by (simp add: spec_concat_def h_def word_of_int_uint flip: hash_refines)
  have "fst (spec_generator (word_of_int (uint h))) = fst (rng (uint h))"
    by (rule rng_refines(1))
  moreover have "snd (spec_generator (word_of_int (uint h))) = word_of_int (snd (rng (uint h)))"
    by (rule rng_refines(2))
  ultimately have g1: "spec_generator h = (fst (rng (uint h)), word_of_int (snd (rng (uint h))))"
    by (simp only: word_of_int_uint prod_eq_iff fst_conv snd_conv)
  have g2: "fst (spec_generator (word_of_int (snd (rng (uint h))))) = fst (rng (snd (rng (uint h))))"
    by (rule rng_refines(1))
  show ?thesis
    unfolding derivePoint_def s0 Let_def g1 case_prod_beta fst_conv snd_conv g2 spec_linear_def
    by (simp only: h_def)
qed

section \<open>Claims about the point generator\<close>

subsection \<open>What a call reads from and leaves in the store\<close>

lemma call_st_fresh:
  "call_st (length st) (st @ [t]) = (Some (fst (rng t)), st @ [snd (rng t)])"
  by (simp add: call_st_def case_prod_beta)

lemma rollSpot_st_run:
  "rollSpot_st code md us n st =
     (Some (rollSpot code md us n),
      st @ [snd (rng (snd (rng (uint (hashStrToSeed
              (code @ lit ''|'' @ md @ lit ''|'' @ us @ lit ''|'' @ numToString n))))))])"
  by (simp add: rollSpot_st_def rollSpot_def mulberry32_st_def mulberry32_def call_st_fresh
      Let_def case_prod_beta)

lemma rollCenter_st_run:
  "rollCenter_st code md us n st =
     (Some (rollCenter code md us n),
      st @ [snd (rng (snd (rng (uint (hashStrToSeed
              (code @ lit ''|'' @ md @ lit ''|'' @ us @ lit ''|'' @ numToString n))))))])"
  by (simp add: rollCenter_st_def rollCenter_def mulberry32_st_def mulberry32_def call_st_fresh
      Let_def case_prod_beta)

lemma roll_fields_agree:
  "lat (rollCenter code md us n) = lat (rollSpot code md us n)
   \<and> lon (rollCenter code md us n) = lon (rollSpot code md us n)
   \<and> seed (rollCenter code md us n) = seed (rollSpot code md us n)"
  by (simp add: rollSpot_def rollCenter_def Let_def case_prod_beta)

text \<open>
  C1. The point generator is deterministic and has no hidden state. With the variable of
  every generator closure kept in a store that is passed through the calls: a call of
  \<open>rollSpot\<close> (of \<open>rollCenter\<close>) always returns a result object, and with the same
  country code, mode, user seed and attempt number it returns the same object from any
  two stores \<open>st\<close> and \<open>st'\<close>, so whatever ran before (other calls of the generator, with
  any arguments) has no influence; in particular a second call, run in the store the first
  call left, returns what the first returned. The call leaves every cell that was in the
  store as it found it, so it has no influence on anything that runs later; its only trace
  is one new cell, the variable of its own closure, which nothing else holds an address
  of. The result is the value of the function of the four arguments \<open>rollSpot\<close>
  (\<open>rollCenter\<close>) that the other statements are about, and the two functions agree on
  latitude, longitude and seed label.
\<close>

theorem generator_no_hidden_state:
  "fst (rollSpot_st code md us n st) = Some (rollSpot code md us n)
   \<and> fst (rollSpot_st code md us n st') = fst (rollSpot_st code md us n st)
   \<and> fst (rollSpot_st code md us n (snd (rollSpot_st code md us n st)))
       = fst (rollSpot_st code md us n st)
   \<and> length (snd (rollSpot_st code md us n st)) = length st + 1
   \<and> take (length st) (snd (rollSpot_st code md us n st)) = st
   \<and> fst (rollCenter_st code md us n st) = Some (rollCenter code md us n)
   \<and> fst (rollCenter_st code md us n st') = fst (rollCenter_st code md us n st)
   \<and> fst (rollCenter_st code md us n (snd (rollCenter_st code md us n st)))
       = fst (rollCenter_st code md us n st)
   \<and> length (snd (rollCenter_st code md us n st)) = length st + 1
   \<and> take (length st) (snd (rollCenter_st code md us n st)) = st
   \<and> map_option lat (fst (rollCenter_st code md us n st))
       = map_option lat (fst (rollSpot_st code md us n st'))
   \<and> map_option lon (fst (rollCenter_st code md us n st))
       = map_option lon (fst (rollSpot_st code md us n st'))
   \<and> map_option seed (fst (rollCenter_st code md us n st))
       = map_option seed (fst (rollSpot_st code md us n st'))"
  by (simp add: rollSpot_st_run rollCenter_st_run roll_fields_agree)

text \<open>
  An instance: in a store that already holds the variables of two other generators, the
  call returns what it returns in the empty store, and the two cells are as before.
\<close>

theorem generator_no_hidden_state_witness:
  "fst (rollSpot_st (lit ''NZ'') (lit ''publicish'') (lit ''abc'') 1 [])
     = fst (rollSpot_st (lit ''NZ'') (lit ''publicish'') (lit ''abc'') 1 [11, 22])
   \<and> take 2 (snd (rollSpot_st (lit ''NZ'') (lit ''publicish'') (lit ''abc'') 1 [11, 22]))
       = [11, 22]
   \<and> fst (rollCenter_st (lit ''NZ'') (lit ''publicish'') (lit ''abc'') 1 [])
     = fst (rollCenter_st (lit ''NZ'') (lit ''publicish'') (lit ''abc'') 1 [11, 22])"
  using generator_no_hidden_state
    [of "lit ''NZ''" "lit ''publicish''" "lit ''abc''" 1 "[11, 22]" "[]"]
  by (simp add: numeral_2_eq_2)

text \<open>
  C2. Bounds containment: for every country code of the table, every mode, user seed and
  attempt number, the latitude and longitude that \<open>rollSpot\<close> and \<open>rollCenter\<close> return
  are numbers inside the country's rectangle, limits included, after the rounding to 6
  decimals. The limits are the doubles the table's literals denote.
\<close>

theorem bounds_containment:
  assumes "COUNTRY_BOUNDS code = Some b"
  shows "(\<exists>x y. lat (rollSpot code md us n) = Num x \<and> lon (rollSpot code md us n) = Num y
            \<and> latMin b \<le> x \<and> x \<le> latMax b \<and> lonMin b \<le> y \<and> y \<le> lonMax b)
       \<and> (\<exists>x y. lat (rollCenter code md us n) = Num x \<and> lon (rollCenter code md us n) = Num y
            \<and> latMin b \<le> x \<and> x \<le> latMax b \<and> lonMin b \<le> y \<and> y \<le> lonMax b)"
proof -
  have bf: "boundsFor code = Inr b" using assms by (rule boundsFor_table)
  note la = coordinate_in_range [OF table_good(1) [OF assms]]
  note lo = coordinate_in_range [OF table_good(2) [OF assms]]
  show ?thesis
    unfolding rollSpot_closed [OF bf] rollCenter_closed [OF bf]
    using la lo by simp
qed

theorem bounds_containment_witness:
  "COUNTRY_BOUNDS (lit ''GB'') = Some GB
   \<and> (\<exists>x y. lat (rollSpot (lit ''GB'') (lit ''anywhere'') (lit ''abc'') 2) = Num x
          \<and> lon (rollSpot (lit ''GB'') (lit ''anywhere'') (lit ''abc'') 2) = Num y
          \<and> latMin GB \<le> x \<and> x \<le> latMax GB \<and> lonMin GB \<le> y \<and> y \<le> lonMax GB)"
proof -
  have h: "COUNTRY_BOUNDS (lit ''GB'') = Some GB" by code_simp
  show ?thesis using h bounds_containment [OF h, of "lit ''anywhere''" "lit ''abc''" 2] by blast
qed

text \<open>
  C3, as claimed, fails on the first frontend file: in mode \<open>publicish\<close> its
  \<open>rollSpot\<close> draws a third value for \<open>landBiasAccept\<close> and draws again when that
  rejects. For \<open>NZ|publicish|abc|2\<close> the first candidate is rejected and the second
  returned, so the result is not the point of the two-draw derivation.
\<close>

lemma jsRem_small:
  assumes "0 \<le> x" "x < y"
  shows "jsRem x y = x"
proof -
  have "0 \<le> x / y" "x / y < 1" using assms by simp_all
  then have "\<lfloor>x / y\<rfloor> = 0" by linarith
  then show ?thesis using \<open>0 \<le> x / y\<close> by (simp add: jsRem_def)
qed

theorem derivation_v1_counterexample:
  "lat (rollSpot_v1 (lit ''NZ'') (lit ''publicish'') (lit ''abc'') 2) = Num (- fl 42.473975)
   \<and> lon (rollSpot_v1 (lit ''NZ'') (lit ''publicish'') (lit ''abc'') 2) = Num (fl 169.986176)
   \<and> lat (derivePoint (lit ''NZ'') (lit ''publicish'') (lit ''abc'') 2) = Num (- fl 37.392623)
   \<and> lon (derivePoint (lit ''NZ'') (lit ''publicish'') (lit ''abc'') 2) = Num (fl 166.620861)"
proof -
  have base: "lit ''NZ'' @ lit ''|'' @ lit ''publicish'' @ lit ''|'' @ lit ''abc'' @ lit ''|'' @ numToString 2
      = lit ''NZ|publicish|abc|2''"
    by (simp add: lit_def numToString_def decDigits.simps)
  have h: "hashStrToSeed (lit ''NZ|publicish|abc|2'') = 3016604068"
    by (simp add: hashStrToSeed_def lit_def)
  have r1: "rng 3016604068 = (803904707 / 1073741824, 4848169881)"
    by (simp add: rng_def)
  have r2: "rng 4848169881 = (1509611 / 33554432, 6679735694)"
    by (simp add: rng_def)
  have r3: "rng 6679735694 = (486581637 / 536870912, 8511301507)"
    by (simp add: rng_def)
  have r4: "rng 8511301507 = (799504175 / 2147483648, 10342867320)"
    by (simp add: rng_def)
  have r5: "rng 10342867320 = (1240615685 / 4294967296, 12174433133)"
    by (simp add: rng_def)
  have r6: "rng 12174433133 = (232711219 / 536870912, 14005998946)"
    by (simp add: rng_def)
  have f1: "fl (95 / 2) = 95 / 2"
    by (rule fl_eqI [where e = "5" and k = "6685030696878080"]) simp_all
  have f2: "fl 34 = 34"
    by (rule fl_eqI [where e = "5" and k = "4785074604081152"]) simp_all
  have f3: "fl 166 = 166"
    by (rule fl_eqI [where e = "7" and k = "5840605766746112"]) simp_all
  have f4: "fl (899 / 5) = 3163075050785997 / 17592186044416"
    by (rule fl_eqI [where e = "7" and k = "6326150101571994"]) simp_all
  have f5: "fl (27 / 2) = 27 / 2"
    by (rule fl_eqI [where e = "3" and k = "7599824371187712"]) simp_all
  have f6: "fl (21705427089 / 2147483648) = 21705427089 / 2147483648"
    by (rule fl_eqI [where e = "3" and k = "5689947478818816"]) simp_all
  have f7: "fl (80300046191 / 2147483648) = 80300046191 / 2147483648"
    by (rule fl_eqI [where e = "5" and k = "5262543827173376"]) simp_all
  have f8: "fl (242772167412941 / 17592186044416) = 242772167412941 / 17592186044416"
    by (rule fl_eqI [where e = "3" and k = "7768709357214112"]) simp_all
  have f9: "fl (366491534420417275951 / 590295810358705651712) = 5592217016913105 / 9007199254740992"
    by (rule fl_eqI [where e = "- 1" and k = "5592217016913105"]) simp_all
  have f10: "fl (1500787293303917777 / 9007199254740992) = 5862450364468429 / 35184372088832"
    by (rule fl_eqI [where e = "7" and k = "5862450364468429"]) simp_all
  have f11: "fl (80300046191 / 193273528320) = 7484506776424357 / 18014398509481984"
    by (rule fl_eqI [where e = "- 2" and k = "7484506776424357"]) simp_all
  have f12: "fl (10529891733057627 / 18014398509481984) = 2632472933264407 / 4503599627370496"
    by (rule fl_tieI [where e = "- 1" and f = "5264945866528813"]) simp_all
  have f13: "fl (5862450364468429 / 6333186975989760) = 4168853592510883 / 4503599627370496"
    by (rule fl_eqI [where e = "- 1" and k = "8337707185021766"]) simp_all
  have f14: "fl (1 / 5) = 3602879701896397 / 18014398509481984"
    by (rule fl_eqI [where e = "- 3" and k = "7205759403792794"]) simp_all
  have f15: "fl (15019877988635333836051960988551 / 81129638414606681695789005144064) = 6670165748017413 / 36028797018963968"
    by (rule fl_eqI [where e = "- 3" and k = "6670165748017413"]) simp_all
  have f16: "fl (29358631270946555 / 36028797018963968) = 7339657817736639 / 9007199254740992"
    by (rule fl_eqI [where e = "- 1" and k = "7339657817736639"]) simp_all
  have f17: "fl (19321450544614206394506478508073 / 40564819207303340847894502572032) = 8580447705514785 / 18014398509481984"
    by (rule fl_eqI [where e = "- 2" and k = "8580447705514785"]) simp_all
  have f18: "fl (23 / 20) = 2589569785738035 / 2251799813685248"
    by (rule fl_eqI [where e = "0" and k = "5179139571476070"]) simp_all
  have f19: "fl (22219668126306335829110829347475 / 40564819207303340847894502572032) = 4933757430671001 / 9007199254740992"
    by (rule fl_eqI [where e = "- 1" and k = "4933757430671001"]) simp_all
  have f20: "fl (1 / 20) = 3602879701896397 / 72057594037927936"
    by (rule fl_eqI [where e = "- 5" and k = "7205759403792794"]) simp_all
  have f21: "fl (19 / 20) = 4278419646001971 / 4503599627370496"
    by (rule fl_eqI [where e = "- 1" and k = "8556839292003942"]) simp_all
  have f22: "fl (21586612725 / 4294967296) = 21586612725 / 4294967296"
    by (rule fl_eqI [where e = "2" and k = "5658801006182400"]) simp_all
  have f23: "fl (182424333835 / 4294967296) = 182424333835 / 4294967296"
    by (rule fl_eqI [where e = "5" and k = "5977680571105280"]) simp_all
  have f24: "fl (301186958773940476579585 / 75557863725914323419136) = 8976070844350471 / 2251799813685248"
    by (rule fl_eqI [where e = "1" and k = "8976070844350471"]) simp_all
  have f25: "fl (382774839916101639 / 2251799813685248) = 730085067589 / 4294967296"
    by (rule fl_eqI [where e = "7" and k = "5980856873689088"]) simp_all
  have f26: "fl (36484866767 / 77309411328) = 4250795072785977 / 9007199254740992"
    by (rule fl_eqI [where e = "- 2" and k = "8501590145571954"]) simp_all
  have f27: "fl (4756404181955015 / 9007199254740992) = 4756404181955015 / 9007199254740992"
    by (rule fl_eqI [where e = "- 1" and k = "4756404181955015"]) simp_all
  have f28: "fl (730085067589 / 773094113280) = 8506107553691147 / 9007199254740992"
    by (rule fl_eqI [where e = "- 1" and k = "8506107553691147"]) simp_all
  have f29: "fl (30646482247341450442513130097359 / 162259276829213363391578010288128) = 3402443021476459 / 18014398509481984"
    by (rule fl_eqI [where e = "- 3" and k = "6804886042952918"]) simp_all
  have f30: "fl (14611955488005525 / 18014398509481984) = 3652988872001381 / 4503599627370496"
    by (rule fl_tieI [where e = "- 1" and f = "7305977744002762"]) simp_all
  have f31: "fl (17375091547422501593768359875715 / 40564819207303340847894502572032) = 1883811200285 / 4398046511104"
    by (rule fl_eqI [where e = "- 2" and k = "7716090676367360"]) simp_all
  have f32: "fl (4878260566292937987927339975 / 9903520314283042199192993792) = 8873504277822463 / 18014398509481984"
    by (rule fl_eqI [where e = "- 2" and k = "8873504277822463"]) simp_all
  have f33: "roundHalfAway (2850380216171875 / 67108864) = 42473975"
    by (rule roundHalfAway_eqI) simp
  have f34: "fl (1698959 / 40000) = 5977680561966993 / 140737488355328"
    by (rule fl_eqI [where e = "5" and k = "5977680561966993"]) simp_all
  have f35: "roundHalfAway (11407579181078125 / 67108864) = 169986176"
    by (rule roundHalfAway_eqI) simp
  have f36: "fl (2656034 / 15625) = 1495214216585421 / 8796093022208"
    by (rule fl_eqI [where e = "7" and k = "5980856866341684"]) simp_all
  have f37: "roundHalfAway (1254688221734375 / 33554432) = 37392623"
    by (rule roundHalfAway_eqI) simp
  have f38: "fl (37392623 / 1000000) = 2631271922018835 / 70368744177664"
    by (rule fl_eqI [where e = "5" and k = "5262543844037670"]) simp_all
  have f39: "roundHalfAway (91600786944819203125 / 549755813888) = 166620861"
    by (rule roundHalfAway_eqI) simp
  have f40: "fl (166620861 / 1000000) = 1465612592796389 / 8796093022208"
    by (rule fl_eqI [where e = "7" and k = "5862450371185556"]) simp_all
  note facts = r1 r2 r3 r4 r5 r6 f1 f2 f3 f4 f5 f6 f7 f8 f9 f10 f11 f12 f13 f14 f15 f16 f17 f18 f19 f20 f21 f22 f23 f24 f25 f26 f27 f28 f29 f30 f31 f32 f33 f34 f35 f36 f37 f38 f39 f40
  have bf: "boundsFor (lit ''NZ'') = Inr NZ"
    by (simp add: boundsFor_def getProperty_def COUNTRY_BOUNDS_def)
  have cb: "COUNTRY_BOUNDS (lit ''NZ'') = Some NZ"
    by (simp add: COUNTRY_BOUNDS_def)
  have n: "(120::nat) = Suc (Suc 118)" by simp
  have tries: "rollTries NZ (lit ''publicish'') 120 3016604068 (0, 0)
      = (- (182424333835 / 4294967296), 730085067589 / 4294967296)"
    unfolding n rollTries.simps
    by (simp add: Let_def NZ_def landBiasAccept_def oceanishHeuristic_def clamp_def jsRem_small
        fl_minus facts)
  have v1: "lat (rollSpot_v1 (lit ''NZ'') (lit ''publicish'') (lit ''abc'') 2) = Num (- fl 42.473975)
      \<and> lon (rollSpot_v1 (lit ''NZ'') (lit ''publicish'') (lit ''abc'') 2) = Num (fl 169.986176)"
    by (simp add: rollSpot_v1_def bf base h mulberry32_def tries Let_def numberToFixed_def
        toFixed_def decimals_def roundHalfAway_minus fl_minus facts)
  have sp: "lat (derivePoint (lit ''NZ'') (lit ''publicish'') (lit ''abc'') 2) = Num (- fl 37.392623)
      \<and> lon (derivePoint (lit ''NZ'') (lit ''publicish'') (lit ''abc'') 2) = Num (fl 166.620861)"
    by (simp add: derivePoint_closed cb base h NZ_def Let_def numberToFixed_def
        toFixed_def decimals_def roundHalfAway_minus fl_minus facts)
  show ?thesis using v1 sp by simp
qed

text \<open>
  C3, amended. For every country code that is not the name of a property inherited from
  \<open>Object.prototype\<close>: \<open>rollSpot\<close> of \<open>public/app.js\<close> and \<open>rollCenter\<close> return
  exactly the point of the specification's derivation (concatenate, FNV-1a fold, seed the
  generator, two draws mapped linearly into the latitude and longitude ranges, each rounded
  to 6 decimals), and so does \<open>rollSpot\<close> of the first frontend file when the mode is not
  \<open>publicish\<close>. The hash is the specification's 32-bit fold for every string.
\<close>

theorem derivation_as_specified:
  assumes "code \<notin> set (lit ''__proto__'' # objectPrototypeMethods)"
  shows "rollSpot code md us n = derivePoint code md us n
       \<and> spot.truncate (rollCenter code md us n) = derivePoint code md us n
       \<and> (md \<noteq> lit ''publicish'' \<longrightarrow> rollSpot_v1 code md us n = derivePoint code md us n)
       \<and> uint (hashStrToSeed str) = spec_fnv1a str"
proof -
  note bf = boundsFor_cases [OF assms]
  show ?thesis
    by (simp add: rollSpot_closed [OF bf] rollCenter_closed [OF bf] rollSpot_v1_closed [OF bf]
        derivePoint_closed hash_refines spot.truncate_def Let_def)
qed

theorem derivation_as_specified_witness:
  "lit ''NZ'' \<notin> set (lit ''__proto__'' # objectPrototypeMethods)
   \<and> rollSpot (lit ''NZ'') (lit ''anywhere'') (lit ''abc'') 1
       = derivePoint (lit ''NZ'') (lit ''anywhere'') (lit ''abc'') 1
   \<and> lit ''anywhere'' \<noteq> lit ''publicish''
   \<and> rollSpot_v1 (lit ''NZ'') (lit ''anywhere'') (lit ''abc'') 1
       = derivePoint (lit ''NZ'') (lit ''anywhere'') (lit ''abc'') 1"
proof -
  have h: "lit ''NZ'' \<notin> set (lit ''__proto__'' # objectPrototypeMethods)" by code_simp
  have m: "lit ''anywhere'' \<noteq> lit ''publicish''" by code_simp
  show ?thesis
    using h m derivation_as_specified [OF h, of "lit ''anywhere''" "lit ''abc''" 1] by blast
qed

text \<open>
  C10. An unknown country code is meant to fall back to New Zealand's bounds while the
  caller's code is kept and hashed. A code that names a property inherited from
  \<open>Object.prototype\<close> is not in the table and yet does not fall back: for
  \<open>constructor\<close> the generators report the country \<open>Object\<close> and the coordinates
  \<open>NaN\<close>.
\<close>

theorem inherited_key_not_defaulted:
  "getProperty (lit ''constructor'') = Some (Inl (ProtoFunction (lit ''Object'')))
   \<and> COUNTRY_BOUNDS (lit ''constructor'') = None
   \<and> country (rollSpot (lit ''constructor'') (lit ''publicish'') (lit ''abc'') 1) = Some (lit ''Object'')
   \<and> lat (rollSpot (lit ''constructor'') (lit ''publicish'') (lit ''abc'') 1) = NaN
   \<and> lon (rollSpot (lit ''constructor'') (lit ''publicish'') (lit ''abc'') 1) = NaN
   \<and> lat (rollCenter (lit ''constructor'') (lit ''publicish'') (lit ''abc'') 1) = NaN
   \<and> lat (rollSpot_v1 (lit ''constructor'') (lit ''publicish'') (lit ''abc'') 1) = NaN"
  by code_simp

text \<open>
  For the other unknown codes the fallback works as C10 describes: New Zealand's name and
  rectangle, the caller's code in the result and in the hashed string.
\<close>

lemma unknown_code_falls_back:
  assumes "COUNTRY_BOUNDS code = None" "code \<notin> set (lit ''__proto__'' # objectPrototypeMethods)"
  shows "country (rollSpot code md us n) = Some (name NZ)"
    and "countryCode (rollSpot code md us n) = code"
    and "seed (rollSpot code md us n) = code @ lit ''-'' @ md @ lit ''-'' @ toString16
           (hashStrToSeed (code @ lit ''|'' @ md @ lit ''|'' @ us @ lit ''|'' @ numToString n))"
    and "\<exists>x y. lat (rollSpot code md us n) = Num x \<and> lon (rollSpot code md us n) = Num y
           \<and> latMin NZ \<le> x \<and> x \<le> latMax NZ \<and> lonMin NZ \<le> y \<and> y \<le> lonMax NZ"
proof -
  have bf: "boundsFor code = Inr NZ" using boundsFor_cases [OF assms(2)] assms(1) by simp
  show "country (rollSpot code md us n) = Some (name NZ)"
    and "countryCode (rollSpot code md us n) = code"
    and "seed (rollSpot code md us n) = code @ lit ''-'' @ md @ lit ''-'' @ toString16
           (hashStrToSeed (code @ lit ''|'' @ md @ lit ''|'' @ us @ lit ''|'' @ numToString n))"
    by (simp_all add: rollSpot_closed [OF bf])
  note la = coordinate_in_range [OF range_NZ_lat]
  note lo = coordinate_in_range [OF range_NZ_lon]
  show "\<exists>x y. lat (rollSpot code md us n) = Num x \<and> lon (rollSpot code md us n) = Num y
           \<and> latMin NZ \<le> x \<and> x \<le> latMax NZ \<and> lonMin NZ \<le> y \<and> y \<le> lonMax NZ"
    unfolding rollSpot_closed [OF bf] using la lo by simp
qed

section \<open>Claims about the tile\<close>

lemma fl_012: "fl (3 / 25) = 1080863910568919 / 9007199254740992"
  by (rule fl_eqI [where e = "- 4" and k = "8646911284551352"]) simp_all

lemma lon_denominator:
  "13358 \<le> fl (111320 * max c (fl 0.12))"
proof -
  have "(13358::rat) \<le> 111320 * fl 0.12" by (simp add: fl_012)
  also have "\<dots> \<le> 111320 * max c (fl 0.12)" by simp
  finally have "fl 13358 \<le> fl (111320 * max c (fl 0.12))" by (rule fl_mono)
  moreover have "fl (of_int 13358) = of_int 13358" by (rule fl_of_int) simp
  ultimately show ?thesis by simp
qed

lemma whole_area:
  assumes "n * n < 2 ^ 53"
  shows "numberToFixed 2 (fl (of_nat n * of_nat n)) = of_nat n * of_nat n"
proof -
  define k where "k = int (n * n)"
  have kb: "\<bar>k\<bar> < 2 ^ 53"
  proof -
    have "int (n * n) < int (2 ^ 53)" using assms by (simp only: of_nat_less_iff)
    then show ?thesis by (simp add: k_def)
  qed
  have e: "(of_nat n * of_nat n :: rat) = of_int k" by (simp add: k_def)
  have f: "fl (of_int k) = of_int k" using kb by (rule fl_of_int)
  have "\<bar>of_int k :: rat\<bar> < of_int (2 ^ 53)"
    using kb by (simp only: of_int_less_iff flip: of_int_abs)
  also have "(of_int (2 ^ 53) :: rat) \<le> 10 ^ 21" by simp
  finally have small: "\<not> 10 ^ 21 \<le> \<bar>of_int k :: rat\<bar>" by simp
  have "of_int k * (10::rat) ^ 2 = of_int (k * 100)" by simp
  then have "roundHalfAway (of_int k * 10 ^ 2) = k * 100"
    by (simp only: roundHalfAway_of_int)
  then have "decimals 2 (of_int k) = of_int k" by (simp add: decimals_def)
  then show ?thesis unfolding e numberToFixed_def toFixed_def f using small f by simp
qed

text \<open>
  C7, as claimed, fails on the area: \<open>areaM2\<close> is \<open>Number((s * s).toFixed(2))\<close>, the
  square rounded to two decimals. A quarter-meter tile has area \<open>0.0625\<close> and gets
  \<open>0.06\<close>.
\<close>

theorem tile_small_counterexample:
  "areaM2 (makeTileFromCenter (\<lambda>x. 1) 0 0 (1 / 4)) = fl 0.06
   \<and> areaM2 (makeTileFromCenter (\<lambda>x. 1) 0 0 (1 / 4)) \<noteq> (1 / 4) * (1 / 4)"
proof -
  have a: "fl (1 / 16) = 1 / 16"
    by (rule fl_eqI [where e = "- 4" and k = "4503599627370496"]) simp_all
  have b: "roundHalfAway (25 / 4) = 6"
    by (rule roundHalfAway_eqI) simp
  have c: "fl (3 / 50) = 8646911284551352 / 144115188075855872"
    by (rule fl_eqI [where e = "- 5" and k = "8646911284551352"]) simp_all
  show ?thesis
    by (simp add: makeTileFromCenter_def Let_def numberToFixed_def toFixed_def decimals_def a b c)
qed

text \<open>
  C7, amended. For every center and tile size, \<open>makeTileFromCenter\<close> returns
  \<open>north = lat + dLat\<close>, \<open>south = lat - dLat\<close>, \<open>east = lon + dLon\<close>,
  \<open>west = lon - dLon\<close> (in double arithmetic) with one \<open>dLat\<close> and one \<open>dLon\<close>, the
  four corners are the pairs of these, and \<open>dLon\<close> is the half size divided by a
  denominator of at least 13358 (the cosine is clamped from below by 0.12) whatever the
  cosine gives. The area is the square of the size rounded to two decimals; it equals the
  square for every whole number of meters whose square is below \<open>2^53\<close>. Around \<open>(0,0)\<close>
  north and south, east and west are opposite numbers; a 1-meter tile has area 1 and a
  1000-meter tile 1000000.
\<close>

theorem tile_geometry:
  "(let t = makeTileFromCenter mcos la lo s;
        dLat = metersToLatDeg (fl (s / 2));
        dLon = metersToLonDeg mcos (fl (s / 2)) la
    in north t = fl (la + dLat) \<and> south t = fl (la - dLat)
       \<and> east t = fl (lo + dLon) \<and> west t = fl (lo - dLon)
       \<and> NW t = (north t, west t) \<and> NE t = (north t, east t)
       \<and> SW t = (south t, west t) \<and> SE t = (south t, east t)
       \<and> tileCenter t = (la, lo)
       \<and> (\<exists>den. 13358 \<le> den \<and> dLon = fl (fl (s / 2) / den))
       \<and> areaM2 t = numberToFixed 2 (fl (s * s))
       \<and> (\<forall>n::nat. s = of_nat n \<and> n * n < 2 ^ 53 \<longrightarrow> areaM2 t = s * s))
   \<and> north (makeTileFromCenter mcos 0 0 s) = - south (makeTileFromCenter mcos 0 0 s)
   \<and> east (makeTileFromCenter mcos 0 0 s) = - west (makeTileFromCenter mcos 0 0 s)
   \<and> areaM2 (makeTileFromCenter mcos 0 0 1) = 1
   \<and> areaM2 (makeTileFromCenter mcos la lo 1000) = 1000000"
proof -
  have den: "\<exists>den. 13358 \<le> den \<and> metersToLonDeg mcos m x = fl (m / den)" for m x
    unfolding metersToLonDeg_def Let_def using lon_denominator by blast
  have whole: "numberToFixed 2 (fl (s * s)) = s * s" if "s = of_nat n" "n * n < 2 ^ 53" for n
    unfolding that(1) using that(2) by (rule whole_area)
  have one: "numberToFixed 2 (fl (1 * 1)) = 1"
    using whole_area [of 1] by simp
  have thousand: "numberToFixed 2 (fl (1000 * 1000)) = 1000000"
    using whole_area [of 1000] by simp
  show ?thesis
    using den whole one thousand
    by (simp add: makeTileFromCenter_def Let_def fl_minus)
qed

theorem tile_geometry_witness:
  "(25::rat) = of_nat 25 \<and> (25::nat) * 25 < 2 ^ 53
   \<and> areaM2 (makeTileFromCenter (\<lambda>x. 1) 0 0 25) = 25 * 25"
proof -
  have "(25::rat) = of_nat 25 \<and> (25::nat) * 25 < 2 ^ 53" by simp
  then show ?thesis
    using tile_geometry [of "\<lambda>x. 1" 0 0 25] unfolding Let_def by blast
qed

section \<open>Claims about the place-type check\<close>

lemma natural_water_redundant:
  assumes "t = lit ''water'' \<or> t = lit ''coastline''"
  shows "list_ex (\<lambda>w. includes_str t w) waterWords"
proof -
  have "includes_str (lit ''water'') (lit ''water'')" by (simp add: lit_def)
  moreover have "includes_str (lit ''coastline'') (lit ''coastline'')" by (simp add: lit_def)
  moreover have "lit ''water'' \<in> set waterWords" "lit ''coastline'' \<in> set waterWords"
    by (simp_all add: waterWords_def)
  ultimately show ?thesis using assms unfolding list_ex_iff by blast
qed

text \<open>
  C8, as claimed, fails on \<open>reverseCheck\<close> of \<open>public/app.js\<close>: its list has ten
  words, it compares the type for equality, and it never looks at the address. An answer
  of type \<open>beach\<close> without any country passes.
\<close>

theorem place_check_counterexample:
  "reverseCheck asciiLower
     (Body \<lparr>rtype = Str (lit ''beach''), rcategory = Str (lit ''natural''),
            display_name = Str (lit ''Piha Beach, Auckland''), address = (\<lambda>k. Falsy)\<rparr>)
   = Returns \<lparr>ok = True, looksWater = False, place = lit ''Piha Beach, Auckland'',
              rawType = lit ''beach'', rawCategory = lit ''natural''\<rparr>
   \<and> lit ''beach'' \<in> set waterWords"
  by code_simp

text \<open>
  C8, amended. For an answer whose type, category and display name convert to strings
  (every answer that holds strings there, or nothing): \<open>reverseCheckNominatim\<close> returns
  \<open>ok = false\<close> exactly when the lower-cased type or category contains one of the twelve
  water words, or the address has no country, or the address has none of road,
  pedestrian, footway, cycleway, city, town, village, hamlet, suburb, neighbourhood and
  the trimmed display name is at most 12 code units long; it returns the display name (or
  \<open>Unknown\<close>) as the place, and the type, category and the three signals.
  \<open>reverseCheck\<close> of \<open>public/app.js\<close> returns \<open>ok = false\<close> exactly when the
  lower-cased type is one of its ten words or contains \<open>ocean\<close> or \<open>sea\<close>, or the
  category contains \<open>water\<close> or \<open>sea\<close>, or the trimmed display name is shorter than 6
  code units. For an answer with a value there that cannot be converted, both checks
  throw.
\<close>

theorem place_check_conditions:
  "(stringOrEmpty (rtype d) = Returns ty \<and> stringOrEmpty (rcategory d) = Returns ca
      \<and> stringOrEmpty (display_name d) = Returns di \<longrightarrow>
      (\<exists>c. reverseCheckNominatim lower (Body d) = Returns c
         \<and> (nom_ok c = False \<longleftrightarrow>
               list_ex (\<lambda>w. includes_str (lower ty) w) waterWords
             \<or> list_ex (\<lambda>w. includes_str (lower ca) w) waterWords
             \<or> \<not> truthyValue (address d (lit ''country''))
             \<or> (list_all (\<lambda>k. \<not> truthyValue (address d (lit k)))
                   [''road'', ''pedestrian'', ''footway'', ''cycleway'', ''city'', ''town'',
                    ''village'', ''hamlet'', ''suburb'', ''neighbourhood'']
                 \<and> length (trim di) \<le> 12))
         \<and> nom_place c = (if trim di = [] then lit ''Unknown'' else trim di)
         \<and> nom_type c = lower ty
         \<and> nom_category c = lower ca
         \<and> hasCountry c = truthyValue (address d (lit ''country''))
         \<and> hasRoadish c = list_ex (\<lambda>k. truthyValue (address d (lit k)))
                             [''road'', ''pedestrian'', ''footway'', ''cycleway'']
         \<and> hasPlaceish c = list_ex (\<lambda>k. truthyValue (address d (lit k)))
                             [''city'', ''town'', ''village'', ''hamlet'', ''suburb'',
                              ''neighbourhood''])
      \<and> (\<exists>c. reverseCheck lower (Body d) = Returns c
         \<and> (ok c = False \<longleftrightarrow>
               lower ty \<in> set waterTypes
             \<or> includes_str (lower ty) (lit ''ocean'')
             \<or> includes_str (lower ty) (lit ''sea'')
             \<or> includes_str (lower ca) (lit ''water'')
             \<or> includes_str (lower ca) (lit ''sea'')
             \<or> length (trim di) < 6)
         \<and> place c = (if trim di = [] then lit ''Unknown'' else trim di)))
   \<and> ((\<exists>msg. stringOrEmpty (rtype d) = Throws msg \<or> stringOrEmpty (rcategory d) = Throws msg
          \<or> stringOrEmpty (display_name d) = Throws msg) \<longrightarrow>
       (\<exists>msg. reverseCheckNominatim lower (Body d) = Throws msg)
       \<and> (\<exists>msg. reverseCheck lower (Body d) = Throws msg))"
proof -
  have nw: "(lower ca = lit ''natural'' \<and> (lower ty = lit ''water'' \<or> lower ty = lit ''coastline''))
      \<Longrightarrow> list_ex (\<lambda>w. includes_str (lower ty) w) waterWords"
    using natural_water_redundant by blast
  have a: "\<exists>c. reverseCheckNominatim lower (Body d) = Returns c
         \<and> (nom_ok c = False \<longleftrightarrow>
               list_ex (\<lambda>w. includes_str (lower ty) w) waterWords
             \<or> list_ex (\<lambda>w. includes_str (lower ca) w) waterWords
             \<or> \<not> truthyValue (address d (lit ''country''))
             \<or> (list_all (\<lambda>k. \<not> truthyValue (address d (lit k)))
                   [''road'', ''pedestrian'', ''footway'', ''cycleway'', ''city'', ''town'',
                    ''village'', ''hamlet'', ''suburb'', ''neighbourhood'']
                 \<and> length (trim di) \<le> 12))
         \<and> nom_place c = (if trim di = [] then lit ''Unknown'' else trim di)
         \<and> nom_type c = lower ty
         \<and> nom_category c = lower ca
         \<and> hasCountry c = truthyValue (address d (lit ''country''))
         \<and> hasRoadish c = list_ex (\<lambda>k. truthyValue (address d (lit k)))
                             [''road'', ''pedestrian'', ''footway'', ''cycleway'']
         \<and> hasPlaceish c = list_ex (\<lambda>k. truthyValue (address d (lit k)))
                             [''city'', ''town'', ''village'', ''hamlet'', ''suburb'',
                              ''neighbourhood'']"
    if "stringOrEmpty (rtype d) = Returns ty" "stringOrEmpty (rcategory d) = Returns ca"
      "stringOrEmpty (display_name d) = Returns di"
    using nw that by (auto simp: reverseCheckNominatim_def Let_def)
  have b: "\<exists>c. reverseCheck lower (Body d) = Returns c
         \<and> (ok c = False \<longleftrightarrow>
               lower ty \<in> set waterTypes
             \<or> includes_str (lower ty) (lit ''ocean'')
             \<or> includes_str (lower ty) (lit ''sea'')
             \<or> includes_str (lower ca) (lit ''water'')
             \<or> includes_str (lower ca) (lit ''sea'')
             \<or> length (trim di) < 6)
         \<and> place c = (if trim di = [] then lit ''Unknown'' else trim di)"
    if "stringOrEmpty (rtype d) = Returns ty" "stringOrEmpty (rcategory d) = Returns ca"
      "stringOrEmpty (display_name d) = Returns di"
    using that by (auto simp: reverseCheck_def Let_def)
  have c: "(\<exists>msg. reverseCheckNominatim lower (Body d) = Throws msg)
       \<and> (\<exists>msg. reverseCheck lower (Body d) = Throws msg)"
    if "\<exists>msg. stringOrEmpty (rtype d) = Throws msg \<or> stringOrEmpty (rcategory d) = Throws msg
          \<or> stringOrEmpty (display_name d) = Throws msg"
    using that
    by (auto simp: reverseCheck_def reverseCheckNominatim_def Let_def split: outcome.splits)
  show ?thesis using a b c by blast
qed

text \<open>
  An instance: the answer for a point in the Tasman Sea (type \<open>sea\<close>, no address) is
  rejected by both checks, with the display name as the place label.
\<close>

theorem place_check_conditions_witness:
  "stringOrEmpty (rtype seaAnswer) = Returns (lit ''sea'')
   \<and> stringOrEmpty (rcategory seaAnswer) = Returns (lit ''natural'')
   \<and> stringOrEmpty (display_name seaAnswer) = Returns (lit ''Tasman Sea'')
   \<and> (\<exists>c. reverseCheckNominatim asciiLower (Body seaAnswer) = Returns c
        \<and> nom_ok c = False \<and> nom_place c = lit ''Tasman Sea'' \<and> hasCountry c = False)
   \<and> (\<exists>c. reverseCheck asciiLower (Body seaAnswer) = Returns c
        \<and> ok c = False \<and> place c = lit ''Tasman Sea'')"
proof -
  have t: "stringOrEmpty (rtype seaAnswer) = Returns (lit ''sea'')"
    by (simp add: seaAnswer_def stringOrEmpty_def)
  have g: "stringOrEmpty (rcategory seaAnswer) = Returns (lit ''natural'')"
    by (simp add: seaAnswer_def stringOrEmpty_def)
  have n: "stringOrEmpty (display_name seaAnswer) = Returns (lit ''Tasman Sea'')"
    by (simp add: seaAnswer_def stringOrEmpty_def)
  have w: "list_ex (\<lambda>w. includes_str (asciiLower (lit ''sea'')) w) waterWords"
    by code_simp
  have v: "includes_str (asciiLower (lit ''sea'')) (lit ''sea'')"
    by code_simp
  have p: "trim (lit ''Tasman Sea'') = lit ''Tasman Sea''"
    by code_simp
  have e: "lit ''Tasman Sea'' \<noteq> []" by (simp add: lit_def)
  have c: "truthyValue (address seaAnswer (lit ''country'')) = False"
    by (simp add: seaAnswer_def truthyValue_def)
  show ?thesis
    using place_check_conditions
      [of seaAnswer "lit ''sea''" "lit ''natural''" "lit ''Tasman Sea''" asciiLower]
      t g n w v p e c
    by auto
qed

section \<open>Claims about the orchestrators\<close>

lemma derivations_append [simp]: "derivations (xs @ ys) = derivations xs @ derivations ys"
  by (induction xs rule: derivations.induct) simp_all

lemma strong_calls:
  "fst (strongLandCheck lower a b md) = [CallNominatim]
   \<or> fst (strongLandCheck lower a b md) = [CallNominatim, CallOverpass]"
  by (simp add: strongLandCheck_def split: outcome.split)

lemma derivations_strong [simp]: "derivations (fst (strongLandCheck lower a b md)) = []"
  using strong_calls [of lower a b md] by auto

lemma goodLoop_step:
  assumes "i \<le> mx"
  shows "goodLoop env code md tm us mx i best evs =
     (let sp = candidate env code md tm us i;
          evs' = evs @ [Derive i]
                 @ fst (strongLandCheck (toLowerCase env) (nominatim env i) (overpass env i) md)
      in if md \<noteq> lit ''publicish'' \<or> sc_ok (picked_check sp) then (Some sp, evs')
         else goodLoop env code md tm us mx (i + 1) (Some sp) evs')"
  using assms
  by (subst goodLoop.simps)
     (simp add: Let_def candidate_def attemptCheck_def case_prod_beta)

lemma goodLoop_done:
  assumes "\<not> i \<le> mx"
  shows "goodLoop env code md tm us mx i best evs = (map_option exhausted best, evs)"
  using assms by (subst goodLoop.simps) simp

lemma goodLoop_derivations:
  "\<exists>j. derivations (snd (goodLoop env code md tm us mx i best evs)) = derivations evs @ [i..<j]
       \<and> i \<le> j \<and> j \<le> max i (mx + 1) \<and> (i \<le> mx \<longrightarrow> i + 1 \<le> j)"
proof (induction "mx + 1 - i" arbitrary: i best evs)
  case 0
  then have "\<not> i \<le> mx" by simp
  then have "derivations (snd (goodLoop env code md tm us mx i best evs)) = derivations evs @ [i..<i]"
    "\<not> i \<le> mx"
    by (simp_all add: goodLoop_done)
  then show ?case by (intro exI [of _ i]) simp
next
  case (Suc d)
  then have le: "i \<le> mx" and d: "d = mx + 1 - (i + 1)" by simp_all
  let ?sp = "candidate env code md tm us i"
  let ?evs = "evs @ [Derive i]
               @ fst (strongLandCheck (toLowerCase env) (nominatim env i) (overpass env i) md)"
  note step = goodLoop_step [OF le, of env code md tm us best evs]
  show ?case
  proof (cases "md \<noteq> lit ''publicish'' \<or> sc_ok (picked_check ?sp)")
    case True
    then have "goodLoop env code md tm us mx i best evs = (Some ?sp, ?evs)"
      using step by (simp add: Let_def)
    then have "derivations (snd (goodLoop env code md tm us mx i best evs))
        = derivations evs @ [i..<i + 1]" by simp
    then show ?thesis using le by (intro exI [of _ "i + 1"]) simp
  next
    case False
    then have eq: "goodLoop env code md tm us mx i best evs
        = goodLoop env code md tm us mx (i + 1) (Some ?sp) ?evs"
      using step by (simp add: Let_def)
    obtain j where j: "derivations (snd (goodLoop env code md tm us mx (i + 1) (Some ?sp) ?evs))
          = derivations ?evs @ [i + 1..<j]" "i + 1 \<le> j" "j \<le> max (i + 1) (mx + 1)"
      using Suc.hyps(1) [OF d] by blast
    have "[i] @ [i + 1..<j] = [i..<j]" using j(2) by (simp add: upt_conv_Cons)
    then have "derivations (snd (goodLoop env code md tm us mx i best evs))
        = derivations evs @ [i..<j]"
      unfolding eq j(1) by simp
    moreover have "i \<le> j" "j \<le> max i (mx + 1)" "i + 1 \<le> j" using j(2,3) le by simp_all
    ultimately show ?thesis by blast
  qed
qed



lemma likelyLandLoop_step:
  assumes "i \<le> mx"
  shows "likelyLandLoop env code md us mx i sp chk evs =
     (let s = rollSpot code md us i;
          evs' = evs @ [Derive i, CallNominatim]
      in case reverseCheck (toLowerCase env) (nominatim env i) of
           Returns c \<Rightarrow>
             if md \<noteq> lit ''publicish'' \<or> ok c then ((Some s, Some c), evs')
             else likelyLandLoop env code md us mx (i + 1) (Some s) (Some c) evs'
         | Throws msg \<Rightarrow>
             if 3 \<le> i then ((Some s, Some lookupUnavailable), evs')
             else likelyLandLoop env code md us mx (i + 1) (Some s) chk evs')"
  using assms
  by (subst likelyLandLoop.simps) (simp add: Let_def split: outcome.split)

lemma likelyLandLoop_done:
  assumes "\<not> i \<le> mx"
  shows "likelyLandLoop env code md us mx i sp chk evs = ((sp, chk), evs)"
  using assms by (subst likelyLandLoop.simps) simp

lemma likelyLandLoop_derivations:
  "\<exists>j. derivations (snd (likelyLandLoop env code md us mx i sp chk evs)) = derivations evs @ [i..<j]
       \<and> i \<le> j \<and> j \<le> max i (mx + 1) \<and> (i \<le> mx \<longrightarrow> i + 1 \<le> j)
       \<and> fst (fst (likelyLandLoop env code md us mx i sp chk evs))
           = (if j = i then sp else Some (rollSpot code md us (j - 1)))"
proof (induction "mx + 1 - i" arbitrary: i sp chk evs)
  case 0
  then have "\<not> i \<le> mx" by simp
  then have "likelyLandLoop env code md us mx i sp chk evs = ((sp, chk), evs)" "\<not> i \<le> mx"
    by (simp_all add: likelyLandLoop_done)
  then show ?case by (intro exI [of _ i]) simp
next
  case (Suc d)
  then have le: "i \<le> mx" and d: "d = mx + 1 - (i + 1)" by simp_all
  let ?s = "rollSpot code md us i"
  let ?evs = "evs @ [Derive i, CallNominatim]"
  note step = likelyLandLoop_step [OF le, of env code md us sp chk evs]
  have stop: ?case if "likelyLandLoop env code md us mx i sp chk evs = ((Some ?s, c), ?evs)" for c
    using that le by (intro exI [of _ "i + 1"]) simp
  have go: ?case
    if eq: "likelyLandLoop env code md us mx i sp chk evs
              = likelyLandLoop env code md us mx (i + 1) (Some ?s) c ?evs" for c
  proof -
    obtain j where j:
      "derivations (snd (likelyLandLoop env code md us mx (i + 1) (Some ?s) c ?evs))
         = derivations ?evs @ [i + 1..<j]"
      "i + 1 \<le> j" "j \<le> max (i + 1) (mx + 1)"
      "fst (fst (likelyLandLoop env code md us mx (i + 1) (Some ?s) c ?evs))
         = (if j = i + 1 then Some ?s else Some (rollSpot code md us (j - 1)))"
      using Suc.hyps(1) [OF d] by blast
    have "[i] @ [i + 1..<j] = [i..<j]" using j(2) by (simp add: upt_conv_Cons)
    then have "derivations (snd (likelyLandLoop env code md us mx i sp chk evs))
        = derivations evs @ [i..<j]"
      unfolding eq j(1) by simp
    moreover have "fst (fst (likelyLandLoop env code md us mx i sp chk evs))
        = (if j = i then sp else Some (rollSpot code md us (j - 1)))"
      unfolding eq j(4) using j(2) by auto
    moreover have "i \<le> j" "j \<le> max i (mx + 1)" "i + 1 \<le> j" using j(2,3) le by simp_all
    ultimately show ?thesis by blast
  qed
  show ?case
  proof (cases "reverseCheck (toLowerCase env) (nominatim env i)")
    case (Throws msg)
    show ?thesis
    proof (cases "3 \<le> i")
      case True
      then show ?thesis using step Throws by (intro stop) (simp add: Let_def)
    next
      case False
      then show ?thesis using step Throws by (intro go) (simp add: Let_def)
    qed
  next
    case (Returns c)
    show ?thesis
    proof (cases "md \<noteq> lit ''publicish'' \<or> ok c")
      case True
      then show ?thesis using step Returns by (intro stop) (simp add: Let_def)
    next
      case False
      then show ?thesis using step Returns by (intro go) (simp add: Let_def)
    qed
  qed
qed

lemma upt_from_one: "1 \<le> j \<Longrightarrow> [1..<j] = [1..<(j - 1) + 1]"
  by simp


lemma offline_checks:
  "reverseCheck lower HttpNotOk = Throws (lit ''Reverse lookup failed'')"
  "strongLandCheck lower HttpNotOk b md = ([CallNominatim], Throws (lit ''Nominatim reverse failed''))"
  by (simp_all add: reverseCheck_def strongLandCheck_def reverseCheckNominatim_def)

lemma sea_rejected:
  "reverseCheck asciiLower (Body seaAnswer)
     = Returns \<lparr>ok = False, looksWater = True, place = lit ''Tasman Sea'',
                rawType = lit ''sea'', rawCategory = lit ''natural''\<rparr>"
  by code_simp

lemma street_accepted:
  "reverseCheckNominatim asciiLower (Body streetAnswer)
     = Returns \<lparr>nom_ok = True, nom_looksWater = False,
                nom_place = lit ''Queen Street, Auckland, New Zealand'',
                nom_type = lit ''residential'', nom_category = lit ''highway'',
                hasRoadish = True, hasPlaceish = False, hasCountry = True\<rparr>"
  by code_simp


text \<open>
  When \<open>crypto.randomUUID()\<close> throws, both orchestrators throw, before any derivation
  and any request. The statements below are about runs in which it returns.
\<close>

lemma randomUUID_throws:
  assumes "randomUUID env = Throws msg"
  shows "rollUntilGood env code md tileMeters maxAttempts = (Throws msg, [])"
    and "rollUntilLikelyLand env code md maxAttempts = (Throws msg, [])"
  using assms by (simp_all add: rollUntilGood_def rollUntilLikelyLand_def)






text \<open>
  C6, as claimed, fails on the fallback rule. \<open>rollUntilLikelyLand\<close> stops at the first
  failing lookup from attempt 3 on, here after two lookups that succeeded (and rejected)
  and a single error, with seven attempts left, and what it returns is marked not ok.
  \<open>rollUntilGood\<close> never falls back on failing lookups: four errors in a row end in
  \<open>exhausted\<close>.
\<close>

theorem soft_failure_counterexample:
  "rollUntilLikelyLand seaThenOffline (lit ''NZ'') (lit ''publicish'') 10
   = (Returns (Some (rollSpot (lit ''NZ'') (lit ''publicish'') (lit ''abc'') 3),
               Some lookupUnavailable),
      [Derive 1, CallNominatim, Derive 2, CallNominatim, Derive 3, CallNominatim])
   \<and> ok lookupUnavailable = False
   \<and> (\<exists>sp. rollUntilGood offline (lit ''NZ'') (lit ''publicish'') 1 4
        = (Returns (Some sp),
           [Derive 1, CallNominatim, Derive 2, CallNominatim, Derive 3, CallNominatim,
            Derive 4, CallNominatim])
        \<and> sc_ok (picked_check sp) = False \<and> level (picked_check sp) = lit ''exhausted'')"
proof -
  have a: "rollUntilLikelyLand seaThenOffline (lit ''NZ'') (lit ''publicish'') 10
   = (Returns (Some (rollSpot (lit ''NZ'') (lit ''publicish'') (lit ''abc'') 3),
               Some lookupUnavailable),
      [Derive 1, CallNominatim, Derive 2, CallNominatim, Derive 3, CallNominatim])"
    by (simp add: rollUntilLikelyLand_def seaThenOffline_def likelyLandLoop_step Let_def
        offline_checks sea_rejected eval_nat_numeral)
  have rej: "\<not> sc_ok (attemptCheck offline (lit ''publicish'') i)" for i
    by (simp add: attemptCheck_def offline_def offline_checks)
  have s: "fst (strongLandCheck (toLowerCase offline) (nominatim offline i) (overpass offline i)
        (lit ''publicish'')) = [CallNominatim]" for i
    by (simp add: offline_def offline_checks)
  have "goodLoop offline (lit ''NZ'') (lit ''publicish'') 1 (lit ''abc'') 4 1 None []
      = (Some (exhausted (candidate offline (lit ''NZ'') (lit ''publicish'') 1 (lit ''abc'') 4)),
         [Derive 1, CallNominatim, Derive 2, CallNominatim, Derive 3, CallNominatim,
          Derive 4, CallNominatim])"
    by (simp add: goodLoop_step goodLoop_done Let_def s rej candidate_def eval_nat_numeral)
  moreover have "randomUUID offline = Returns (lit ''abc'')" by (simp add: offline_def)
  ultimately have b: "\<exists>sp. rollUntilGood offline (lit ''NZ'') (lit ''publicish'') 1 4
        = (Returns (Some sp),
           [Derive 1, CallNominatim, Derive 2, CallNominatim, Derive 3, CallNominatim,
            Derive 4, CallNominatim])
        \<and> sc_ok (picked_check sp) = False \<and> level (picked_check sp) = lit ''exhausted''"
    by (simp add: rollUntilGood_def exhausted_def)
  show ?thesis using a b by (simp add: lookupUnavailable_def)
qed

text \<open>
  C6, amended. In mode \<open>publicish\<close>, in a run in which \<open>crypto.randomUUID()\<close> returns,
  a failing check call is never propagated and its attempt counts: both orchestrators
  return after deriving the attempts \<open>1, ..., j - 1\<close> with \<open>j - 1 \<le> maxAttempts\<close>. When
  the lookup of attempt \<open>i\<close> fails, \<open>rollUntilLikelyLand\<close> stops with the current spot
  and the check \<open>Lookup unavailable\<close> if \<open>i \<ge> 3\<close> and goes on to attempt \<open>i + 1\<close>
  otherwise; \<open>rollUntilGood\<close> marks the attempt \<open>error\<close>, not ok, and goes on to attempt
  \<open>i + 1\<close>. When the road request fails after the reverse-geocoding check passed,
  \<open>rollUntilGood\<close> returns the current candidate at once, ok, with level \<open>fallback\<close>.
\<close>

theorem soft_failure:
  assumes uu: "randomUUID env = Returns us"
  shows
    "(\<exists>r evs j. rollUntilLikelyLand env code (lit ''publicish'') maxAttempts = (Returns r, evs)
        \<and> derivations evs = [1..<j] \<and> j \<le> maxAttempts + 1)
   \<and> (\<exists>r evs j. rollUntilGood env code (lit ''publicish'') tileMeters maxAttempts = (Returns r, evs)
        \<and> derivations evs = [1..<j] \<and> j \<le> maxAttempts + 1)
   \<and> (\<forall>msg. i \<le> maxAttempts
         \<and> reverseCheck (toLowerCase env) (nominatim env i) = Throws msg \<longrightarrow>
         likelyLandLoop env code (lit ''publicish'') us maxAttempts i sp chk evs
           = (if 3 \<le> i
              then ((Some (rollSpot code (lit ''publicish'') us i), Some lookupUnavailable),
                    evs @ [Derive i, CallNominatim])
              else likelyLandLoop env code (lit ''publicish'') us maxAttempts (i + 1)
                     (Some (rollSpot code (lit ''publicish'') us i)) chk (evs @ [Derive i, CallNominatim])))
   \<and> (\<forall>msg. i \<le> maxAttempts
         \<and> reverseCheckNominatim (toLowerCase env) (nominatim env i) = Throws msg \<longrightarrow>
         level (picked_check (candidate env code (lit ''publicish'') tileMeters us i)) = lit ''error''
         \<and> sc_ok (picked_check (candidate env code (lit ''publicish'') tileMeters us i)) = False
         \<and> goodLoop env code (lit ''publicish'') tileMeters us maxAttempts i best evs
             = goodLoop env code (lit ''publicish'') tileMeters us maxAttempts (i + 1)
                 (Some (candidate env code (lit ''publicish'') tileMeters us i))
                 (evs @ [Derive i, CallNominatim]))
   \<and> (\<forall>n msg. i \<le> maxAttempts
         \<and> reverseCheckNominatim (toLowerCase env) (nominatim env i) = Returns n \<and> nom_ok n
         \<and> overpassHasHighwayNearby (overpass env i) 3000 = Throws msg \<longrightarrow>
         level (picked_check (candidate env code (lit ''publicish'') tileMeters us i)) = lit ''fallback''
         \<and> sc_ok (picked_check (candidate env code (lit ''publicish'') tileMeters us i)) = True
         \<and> goodLoop env code (lit ''publicish'') tileMeters us maxAttempts i best evs
             = (Some (candidate env code (lit ''publicish'') tileMeters us i),
                evs @ [Derive i, CallNominatim, CallOverpass]))"
proof -
  have a: "\<exists>r evs j. rollUntilLikelyLand env code (lit ''publicish'') maxAttempts = (Returns r, evs)
        \<and> derivations evs = [1..<j] \<and> j \<le> maxAttempts + 1"
  proof -
    obtain j where "derivations (snd (likelyLandLoop env code (lit ''publicish'') us maxAttempts 1 None None []))
        = [1..<j]" "j \<le> max 1 (maxAttempts + 1)"
      using likelyLandLoop_derivations [of env code "lit ''publicish''" us maxAttempts 1 None None "[]"] by auto
    then show ?thesis
      by (intro exI [of _ "fst (likelyLandLoop env code (lit ''publicish'') us maxAttempts 1 None None [])"]
            exI [of _ "snd (likelyLandLoop env code (lit ''publicish'') us maxAttempts 1 None None [])"]
            exI [of _ j])
         (simp add: rollUntilLikelyLand_def uu case_prod_beta)
  qed
  have b: "\<exists>r evs j. rollUntilGood env code (lit ''publicish'') tileMeters maxAttempts = (Returns r, evs)
        \<and> derivations evs = [1..<j] \<and> j \<le> maxAttempts + 1"
  proof -
    obtain j where "derivations (snd (goodLoop env code (lit ''publicish'') tileMeters us maxAttempts 1 None []))
        = [1..<j]" "j \<le> max 1 (maxAttempts + 1)"
      using goodLoop_derivations [of env code "lit ''publicish''" tileMeters us maxAttempts 1 None "[]"] by auto
    then show ?thesis
      by (intro exI [of _ "fst (goodLoop env code (lit ''publicish'') tileMeters us maxAttempts 1 None [])"]
            exI [of _ "snd (goodLoop env code (lit ''publicish'') tileMeters us maxAttempts 1 None [])"]
            exI [of _ j])
         (simp add: rollUntilGood_def uu case_prod_beta)
  qed
  have c: "likelyLandLoop env code (lit ''publicish'') us maxAttempts i sp chk evs
           = (if 3 \<le> i
              then ((Some (rollSpot code (lit ''publicish'') us i), Some lookupUnavailable),
                    evs @ [Derive i, CallNominatim])
              else likelyLandLoop env code (lit ''publicish'') us maxAttempts (i + 1)
                     (Some (rollSpot code (lit ''publicish'') us i)) chk (evs @ [Derive i, CallNominatim]))"
    if "i \<le> maxAttempts" "reverseCheck (toLowerCase env) (nominatim env i) = Throws msg" for msg
    using likelyLandLoop_step [OF that(1), of env code "lit ''publicish''" us sp chk evs] that(2)
    by (simp add: Let_def)
  have d: "level (picked_check (candidate env code (lit ''publicish'') tileMeters us i)) = lit ''error''
         \<and> sc_ok (picked_check (candidate env code (lit ''publicish'') tileMeters us i)) = False
         \<and> goodLoop env code (lit ''publicish'') tileMeters us maxAttempts i best evs
             = goodLoop env code (lit ''publicish'') tileMeters us maxAttempts (i + 1)
                 (Some (candidate env code (lit ''publicish'') tileMeters us i))
                 (evs @ [Derive i, CallNominatim])"
    if "i \<le> maxAttempts"
      "reverseCheckNominatim (toLowerCase env) (nominatim env i) = Throws msg" for msg
  proof -
    have s: "strongLandCheck (toLowerCase env) (nominatim env i) (overpass env i) (lit ''publicish'')
        = ([CallNominatim], Throws msg)"
      using that(2) by (simp add: strongLandCheck_def)
    have k: "picked_check (candidate env code (lit ''publicish'') tileMeters us i)
        = \<lparr>sc_ok = False, level = lit ''error'', sc_place = lit ''Lookup unavailable'',
           nom = None, roads = None, sc_error = Some msg, sc_note = None\<rparr>"
      using s by (simp add: candidate_def attemptCheck_def Let_def)
    show ?thesis
      using goodLoop_step [OF that(1), of env code "lit ''publicish''" tileMeters us best evs] k s
      by (simp add: Let_def)
  qed
  have e: "level (picked_check (candidate env code (lit ''publicish'') tileMeters us i)) = lit ''fallback''
         \<and> sc_ok (picked_check (candidate env code (lit ''publicish'') tileMeters us i)) = True
         \<and> goodLoop env code (lit ''publicish'') tileMeters us maxAttempts i best evs
             = (Some (candidate env code (lit ''publicish'') tileMeters us i),
                evs @ [Derive i, CallNominatim, CallOverpass])"
    if "i \<le> maxAttempts"
      "reverseCheckNominatim (toLowerCase env) (nominatim env i) = Returns n" "nom_ok n"
      "overpassHasHighwayNearby (overpass env i) 3000 = Throws msg" for n msg
  proof -
    have s: "strongLandCheck (toLowerCase env) (nominatim env i) (overpass env i) (lit ''publicish'')
        = ([CallNominatim, CallOverpass],
           Returns \<lparr>sc_ok = True, level = lit ''fallback'', sc_place = nom_place n,
             nom = Some n, roads = Some (RoadsError msg), sc_error = None, sc_note = None\<rparr>)"
      using that(2,3,4) by (simp add: strongLandCheck_def)
    have k: "picked_check (candidate env code (lit ''publicish'') tileMeters us i)
        = \<lparr>sc_ok = True, level = lit ''fallback'', sc_place = nom_place n,
             nom = Some n, roads = Some (RoadsError msg), sc_error = None, sc_note = None\<rparr>"
      by (simp add: candidate_def attemptCheck_def s Let_def)
    show ?thesis
      using goodLoop_step [OF that(1), of env code "lit ''publicish''" tileMeters us best evs]
      by (simp add: Let_def k s)
  qed
  show ?thesis using a b c d e by blast
qed
text \<open>
  Instances: the lookup of attempt 3 of 10 fails and \<open>rollUntilLikelyLand\<close> stops; the
  lookup of attempt 3 fails and \<open>rollUntilGood\<close> marks it \<open>error\<close>; the point is on a
  street, the road request fails, and \<open>rollUntilGood\<close> accepts with level \<open>fallback\<close>.
\<close>

theorem soft_failure_witness:
  "randomUUID offline = Returns (lit ''abc'') \<and> (3::nat) \<le> 10
   \<and> reverseCheck (toLowerCase offline) (nominatim offline 3)
       = Throws (lit ''Reverse lookup failed'')
   \<and> likelyLandLoop offline (lit ''NZ'') (lit ''publicish'') (lit ''abc'') 10 3 None None []
      = ((Some (rollSpot (lit ''NZ'') (lit ''publicish'') (lit ''abc'') 3), Some lookupUnavailable),
         [Derive 3, CallNominatim])
   \<and> reverseCheckNominatim (toLowerCase offline) (nominatim offline 3)
       = Throws (lit ''Nominatim reverse failed'')
   \<and> level (picked_check (candidate offline (lit ''NZ'') (lit ''publicish'') 1 (lit ''abc'') 3))
       = lit ''error''
   \<and> randomUUID streetNoRoads = Returns (lit ''abc'') \<and> (1::nat) \<le> 10
   \<and> (\<exists>n. reverseCheckNominatim (toLowerCase streetNoRoads) (nominatim streetNoRoads 1)
            = Returns n \<and> nom_ok n)
   \<and> overpassHasHighwayNearby (overpass streetNoRoads 1) 3000 = Throws (lit ''Overpass failed'')
   \<and> level (picked_check (candidate streetNoRoads (lit ''NZ'') (lit ''publicish'') 1 (lit ''abc'') 1))
       = lit ''fallback''
   \<and> goodLoop streetNoRoads (lit ''NZ'') (lit ''publicish'') 1 (lit ''abc'') 10 1 None []
       = (Some (candidate streetNoRoads (lit ''NZ'') (lit ''publicish'') 1 (lit ''abc'') 1),
          [Derive 1, CallNominatim, CallOverpass])"
proof -
  have u: "randomUUID offline = Returns (lit ''abc'')" by (simp add: offline_def)
  have n: "(3::nat) \<le> 10" by simp
  have t: "reverseCheck (toLowerCase offline) (nominatim offline 3)
      = Throws (lit ''Reverse lookup failed'')"
    by (simp add: offline_def offline_checks)
  have t': "reverseCheckNominatim (toLowerCase offline) (nominatim offline 3)
      = Throws (lit ''Nominatim reverse failed'')"
    by (simp add: offline_def reverseCheckNominatim_def)
  note off = soft_failure [OF u, where code = "lit ''NZ''" and maxAttempts = 10 and i = 3
      and sp = None and chk = None and evs = "[]" and tileMeters = 1 and best = None]
  have a: "likelyLandLoop offline (lit ''NZ'') (lit ''publicish'') (lit ''abc'') 10 3 None None []
      = ((Some (rollSpot (lit ''NZ'') (lit ''publicish'') (lit ''abc'') 3), Some lookupUnavailable),
         [Derive 3, CallNominatim])"
    using off t n by simp
  have b: "level (picked_check (candidate offline (lit ''NZ'') (lit ''publicish'') 1 (lit ''abc'') 3))
      = lit ''error''"
    using off t' n by blast
  have u2: "randomUUID streetNoRoads = Returns (lit ''abc'')" by (simp add: streetNoRoads_def)
  have n2: "(1::nat) \<le> 10" by simp
  have s: "\<exists>n. reverseCheckNominatim (toLowerCase streetNoRoads) (nominatim streetNoRoads 1)
      = Returns n \<and> nom_ok n"
    using street_accepted by (simp add: streetNoRoads_def)
  have o: "overpassHasHighwayNearby (overpass streetNoRoads 1) 3000 = Throws (lit ''Overpass failed'')"
    by (simp add: streetNoRoads_def overpassHasHighwayNearby_def)
  note str = soft_failure [OF u2, where code = "lit ''NZ''" and maxAttempts = 10 and i = 1
      and sp = None and chk = None and evs = "[]" and tileMeters = 1 and best = None]
  have c: "level (picked_check (candidate streetNoRoads (lit ''NZ'') (lit ''publicish'') 1 (lit ''abc'') 1))
        = lit ''fallback''
      \<and> goodLoop streetNoRoads (lit ''NZ'') (lit ''publicish'') 1 (lit ''abc'') 10 1 None []
        = (Some (candidate streetNoRoads (lit ''NZ'') (lit ''publicish'') 1 (lit ''abc'') 1),
           [] @ [Derive 1, CallNominatim, CallOverpass])"
    using str s o n2 by blast
  show ?thesis using u n t a t' b u2 n2 s o c by simp
qed

section \<open>Claims about the delivery of the certificate\<close>

text \<open>
  With the Stripe key configured, a \<open>GET\<close> request with \<open>action=deliver\<close> in the query
  is answered by the \<open>deliver\<close> block.
\<close>

lemma handler_runs_deliver:
  assumes "httpMethod ev = lit ''GET''" "truthy (STRIPE_SECRET_KEY cfg)"
    and "q_action ev = Some (lit ''deliver'')" "posted ev = JsonValue None None"
  shows "handler lower cfg flt now ev w
         = (Responds (fst (deliver lower cfg flt now ev w)), snd (deliver lower cfg flt now ev w))"
proof -
  have m: "lit ''GET'' \<noteq> lit ''OPTIONS''" "lit ''GET'' \<noteq> lit ''POST''"
    by (simp_all add: lit_def)
  have t: "truthy (Some (lit ''deliver''))" by (simp add: truthy_def orEmpty_def lit_def)
  have a: "asStr (Some (lit ''deliver'')) 20 = lit ''deliver''" by code_simp
  have d: "lit ''deliver'' \<noteq> lit ''create''" "lit ''deliver'' \<noteq> lit ''verify''"
    by (simp_all add: lit_def)
  have e: "ev\<lparr>posted := JsonValue None None\<rparr> = ev" using assms(4) by simp
  have "handler lower cfg flt now ev w
      = (Responds (fst (deliver lower cfg flt now (ev\<lparr>posted := JsonValue None None\<rparr>) w)),
         snd (deliver lower cfg flt now (ev\<lparr>posted := JsonValue None None\<rparr>) w))"
    using assms m t a d
    by (simp add: handler_def Let_def orElse_def case_prod_beta)
  then show ?thesis by (simp only: e)
qed




end
